theory Spec2Isabelle
  imports Complex_Main "HOL-Library.AList"
begin

text \<open>
  A shallow embedding of \<open>scripts/dumpSTR/dumpSTR.py\<close>, the filtering and quality control
  of STR genotypes: the call-level stage (\<open>FilterCall\<close>, \<open>ApplyCallFilters\<close>), the
  construction of the filter lists, the locus-level stage and the statistics of \<open>main\<close>, and
  the two logs. Exceptions are values of type \<open>error\<close>; the mutable dictionaries
  \<open>sample_info\<close> and \<open>loc_info\<close> are passed and returned. The modules \<open>filters\<close> and
  \<open>utils\<close> and the VCF library are parameters of the functions that call them.
\<close>

section \<open>Values, errors and dictionaries\<close>

text \<open>
  Python values that occur as per-call attributes and INFO entries. A float is carried as
  the rational number it denotes; arithmetic on \<open>VFloat\<close> is exact here.
\<close>

datatype val = VNone | VInt int | VFloat rat | VStr string | VList "val list"

datatype error = KeyError | AttributeError | TypeError | ValueError | ConfigError

text \<open>Numbers held in the statistics dictionaries (initialised to the int 0 in \<open>main\<close>).\<close>

datatype num = NInt int | NFloat rat

fun num_val :: "num \<Rightarrow> rat" where
  "num_val (NInt i) = of_int i"
| "num_val (NFloat q) = q"

text \<open>\<open>x += 1\<close> on a number.\<close>

fun add_one :: "num \<Rightarrow> num" where
  "add_one (NInt i) = NInt (i + 1)"
| "add_one (NFloat q) = NFloat (q + 1)"

text \<open>\<open>x += v\<close> for a number \<open>x\<close> and an arbitrary attribute value \<open>v\<close>.\<close>

fun add_val :: "num \<Rightarrow> val \<Rightarrow> error + num" where
  "add_val (NInt a) (VInt b) = Inr (NInt (a + b))"
| "add_val (NInt a) (VFloat b) = Inr (NFloat (of_int a + b))"
| "add_val (NFloat a) (VInt b) = Inr (NFloat (a + of_int b))"
| "add_val (NFloat a) (VFloat b) = Inr (NFloat (a + b))"
| "add_val _ _ = Inl TypeError"

text \<open>
  A dict is an association list in insertion order; \<open>d[k]\<close> raises KeyError on a missing
  key and \<open>d[k] = v\<close> overwrites in place or appends.
\<close>

definition dict_get :: "('k \<times> 'v) list \<Rightarrow> 'k \<Rightarrow> error + 'v" where
  "dict_get d k = (case map_of d k of None \<Rightarrow> Inl KeyError | Some v \<Rightarrow> Inr v)"

definition dict_set :: "('k \<times> 'v) list \<Rightarrow> 'k \<Rightarrow> 'v \<Rightarrow> ('k \<times> 'v) list" where
  "dict_set d k v = AList.update k v d"

section \<open>Strings\<close>

text \<open>\<open>s.split(c)\<close> for a one-character separator.\<close>

fun split_on :: "char \<Rightarrow> string \<Rightarrow> string list" where
  "split_on c [] = [[]]"
| "split_on c (x # xs) =
     (if x = c then [] # split_on c xs
      else (case split_on c xs of w # ws \<Rightarrow> (x # w) # ws | [] \<Rightarrow> [[x]]))"

text \<open>\<open>p in s\<close> for strings: \<open>p\<close> occurs in \<open>s\<close> as a contiguous substring.\<close>

fun str_contains :: "string \<Rightarrow> string \<Rightarrow> bool" where
  "str_contains p [] = (p = [])"
| "str_contains p (c # cs) = (take (length p) (c # cs) = p \<or> str_contains p cs)"

text \<open>\<open>sep.join(xs)\<close>.\<close>

fun join :: "string \<Rightarrow> string list \<Rightarrow> string" where
  "join sep [] = []"
| "join sep [x] = x"
| "join sep (x # y # ys) = x @ sep @ join sep (y # ys)"

section \<open>Calls, records and the collaborating modules\<close>

text \<open>
  A \<open>vcf._Call\<close>: the sample name and the named tuple of its attributes.
  \<open>sample[key]\<close> is \<open>getattr(sample.data, key)\<close> and raises AttributeError on a
  name the tuple does not have.
\<close>

record call =
  sample :: string
  data :: "(string \<times> val) list"

definition getitem :: "call \<Rightarrow> string \<Rightarrow> error + val" where
  "getitem c key = (case map_of (data c) key of None \<Rightarrow> Inl AttributeError | Some v \<Rightarrow> Inr v)"

text \<open>The locus-level FILTER of a record: \<open>None\<close>, the string \<open>PASS\<close>, or a list of names.\<close>

datatype filter_status = FNone | FPass | FList "string list"

record vcf_record =
  CHROM :: string
  POS :: int
  REF :: string
  ALT :: "string list"
  FORMAT :: string
  samples :: "call list"
  FILTER :: filter_status
  INFO :: "(string \<times> val) list"

text \<open>
  The filter objects of the \<open>filters\<close> module, one constructor per class that
  \<open>BuildCallFilters\<close> and \<open>BuildLocusFilters\<close> instantiate, with the arguments they pass.
\<close>

datatype call_filter =
    LowCallDepth int
  | HighCallDepth int
  | LowCallQ rat
  | CallFlankIndels rat
  | CallStutter rat

datatype locus_filter =
    Filter_MinLocusCallrate rat
  | Filter_MinLocusHWEP rat bool
  | Filter_MinLocusHet rat bool
  | Filter_MaxLocusHet rat bool
  | Filter_LocusHrun
  | Filter_Regions string string

text \<open>
  The methods of the \<open>filters\<close> module, which is not part of the sources at hand, are
  parameters: what a filter object returns when called (\<open>VNone\<close> for Python's \<open>None\<close>),
  and the names it reports. \<open>reason_names\<close> is the list that the introspection of
  \<open>GetAllCallFilters\<close> yields.
\<close>

record filters_module =
  GetReason :: "call_filter \<Rightarrow> string"
  call_filter_call :: "call_filter \<Rightarrow> call \<Rightarrow> val"
  filter_name :: "locus_filter \<Rightarrow> string"
  locus_filter_call :: "locus_filter \<Rightarrow> vcf_record \<Rightarrow> val"
  reason_names :: "string list"

text \<open>
  The properties of a record computed by the VCF library and the functions of the
  \<open>utils\<close> module that \<open>main\<close> calls, likewise parameters.
\<close>

record stats_module =
  num_called :: "vcf_record \<Rightarrow> nat"
  aaf :: "vcf_record \<Rightarrow> rat list"
  heterozygosity :: "vcf_record \<Rightarrow> val"
  GetHomopolymerRun :: "string \<Rightarrow> val"
  GetLengthHet :: "vcf_record \<Rightarrow> val"
  GetSTRHWE :: "vcf_record \<Rightarrow> bool \<Rightarrow> val"

section \<open>Call-level filtering\<close>

text \<open>
  \<open>FilterCall\<close> (lines 140-154): every filter of the list is applied to the call; the reasons of those that
  do not return \<open>None\<close> are collected in order. The second component is a ghost value: the
  filters that were called, in call order.
\<close>

fun FilterCall :: "filters_module \<Rightarrow> call \<Rightarrow> call_filter list \<Rightarrow> string list \<times> call_filter list" where
  "FilterCall fm smp [] = ([], [])"
| "FilterCall fm smp (cfilt # rest) =
     (let (reasons, called) = FilterCall fm smp rest in
      ((if call_filter_call fm cfilt smp \<noteq> VNone then [GetReason fm cfilt] else []) @ reasons,
       cfilt # called))"

text \<open>
  The field names of the output tuple type (lines 171-173): the FORMAT keys, with \<open>FILTER\<close> appended unless
  the FORMAT string already contains the text \<open>FILTER\<close>.
\<close>

definition samp_fmt_fields :: "string \<Rightarrow> string list" where
  "samp_fmt_fields fmt =
     (if str_contains ''FILTER'' fmt then split_on CHR '':'' fmt
      else split_on CHR '':'' fmt @ [''FILTER''])"

text \<open>
  The loop that fills in types and numbers (lines 174-182) looks every field up in the reader's FORMAT
  declarations, the appended \<open>FILTER\<close> apart; an undeclared field raises KeyError.
\<close>

fun check_formats :: "string list \<Rightarrow> string \<Rightarrow> string list \<Rightarrow> error + unit" where
  "check_formats formats fmt [] = Inr ()"
| "check_formats formats fmt (f # fs) =
     (if f = ''FILTER'' \<and> \<not> str_contains ''FILTER'' fmt then check_formats formats fmt fs
      else if f \<in> set formats then check_formats formats fmt fs
      else Inl KeyError)"

text \<open>
  The two copying loops: \<open>FILTER\<close> receives the given status, every other field the
  attribute of the input call.
\<close>

fun copy_fields :: "call \<Rightarrow> string \<Rightarrow> string list \<Rightarrow> error + val list" where
  "copy_fields smp status [] = Inr []"
| "copy_fields smp status (key # keys) =
     (if key = ''FILTER'' then
        (case copy_fields smp status keys of Inl e \<Rightarrow> Inl e | Inr vs \<Rightarrow> Inr (VStr status # vs))
      else
        (case getitem smp key of
           Inl e \<Rightarrow> Inl e
         | Inr v \<Rightarrow> (case copy_fields smp status keys of Inl e \<Rightarrow> Inl e | Inr vs \<Rightarrow> Inr (v # vs))))"

text \<open>The loop of the failing branch: the genotype becomes \<open>./.\<close>, every other attribute \<open>None\<close>.\<close>

fun clear_fields :: "string list \<Rightarrow> string list \<Rightarrow> val list" where
  "clear_fields filter_reasons [] = []"
| "clear_fields filter_reasons (key # keys) =
     (if key = ''GT'' then VStr ''./.''
      else if key = ''FILTER'' then VStr (join '','' filter_reasons)
      else VNone) # clear_fields filter_reasons keys"

type_synonym sample_info = "(string \<times> (string \<times> num) list) list"

text \<open>\<open>sample_info[s][r] += 1\<close>.\<close>

definition incr_sample :: "sample_info \<Rightarrow> string \<Rightarrow> string \<Rightarrow> error + sample_info" where
  "incr_sample si s r =
     (case dict_get si s of
        Inl e \<Rightarrow> Inl e
      | Inr d \<Rightarrow> (case dict_get d r of
                   Inl e \<Rightarrow> Inl e
                 | Inr v \<Rightarrow> Inr (dict_set si s (dict_set d r (add_one v)))))"

fun incr_reasons :: "sample_info \<Rightarrow> string \<Rightarrow> string list \<Rightarrow> error + sample_info" where
  "incr_reasons si s [] = Inr si"
| "incr_reasons si s (r # rs) =
     (case incr_sample si s r of Inl e \<Rightarrow> Inl e | Inr si' \<Rightarrow> incr_reasons si' s rs)"

text \<open>\<open>sample_info[s]["totaldp"] += sample["DP"]\<close>: the target is read first, then the operand.\<close>

definition add_totaldp :: "sample_info \<Rightarrow> call \<Rightarrow> error + sample_info" where
  "add_totaldp si smp =
     (case dict_get si (sample smp) of
        Inl e \<Rightarrow> Inl e
      | Inr d \<Rightarrow> (case dict_get d ''totaldp'' of
                   Inl e \<Rightarrow> Inl e
                 | Inr t \<Rightarrow> (case getitem smp ''DP'' of
                              Inl e \<Rightarrow> Inl e
                            | Inr dp \<Rightarrow> (case add_val t dp of
                                          Inl e \<Rightarrow> Inl e
                                        | Inr t' \<Rightarrow> Inr (dict_set si (sample smp) (dict_set d ''totaldp'' t'))))))"

definition gt_missing :: "val \<Rightarrow> bool" where
  "gt_missing gt = (gt = VNone \<or> gt = VStr ''./.'' \<or> gt = VStr ''.'')"

definition make_call :: "call \<Rightarrow> string list \<Rightarrow> val list \<Rightarrow> call" where
  "make_call smp flds sampdat = \<lparr>sample = sample smp, data = zip flds sampdat\<rparr>"

text \<open>
  The body of the loop over the samples of a record in \<open>ApplyCallFilters\<close> (lines
  185-215). It returns the
  new call, the updated statistics and, as a ghost value, the call filters that were
  applied to this call.
\<close>

definition apply_call ::
  "filters_module \<Rightarrow> string list \<Rightarrow> call_filter list \<Rightarrow> sample_info \<Rightarrow> call
     \<Rightarrow> error + (call \<times> sample_info \<times> call_filter list)" where
  "apply_call fm flds call_filters si smp =
     (case getitem smp ''GT'' of
        Inl e \<Rightarrow> Inl e
      | Inr gt \<Rightarrow>
          if gt_missing gt then
            (case copy_fields smp ''NOCALL'' flds of
               Inl e \<Rightarrow> Inl e
             | Inr sampdat \<Rightarrow> Inr (make_call smp flds sampdat, si, []))
          else
            (let (filter_reasons, called) = FilterCall fm smp call_filters in
             if length filter_reasons > 0 then
               (case incr_reasons si (sample smp) filter_reasons of
                  Inl e \<Rightarrow> Inl e
                | Inr si' \<Rightarrow>
                    Inr (make_call smp flds (clear_fields filter_reasons flds), si', called))
             else
               (case incr_sample si (sample smp) ''numcalls'' of
                  Inl e \<Rightarrow> Inl e
                | Inr si1 \<Rightarrow>
                    (case add_totaldp si1 smp of
                       Inl e \<Rightarrow> Inl e
                     | Inr si2 \<Rightarrow>
                         (case copy_fields smp ''PASS'' flds of
                            Inl e \<Rightarrow> Inl e
                          | Inr sampdat \<Rightarrow> Inr (make_call smp flds sampdat, si2, called))))))"

fun apply_calls ::
  "filters_module \<Rightarrow> string list \<Rightarrow> call_filter list \<Rightarrow> sample_info \<Rightarrow> call list
     \<Rightarrow> error + (call list \<times> sample_info)" where
  "apply_calls fm flds call_filters si [] = Inr ([], si)"
| "apply_calls fm flds call_filters si (smp # rest) =
     (case apply_call fm flds call_filters si smp of
        Inl e \<Rightarrow> Inl e
      | Inr (c, si', called) \<Rightarrow>
          (case apply_calls fm flds call_filters si' rest of
             Inl e \<Rightarrow> Inl e
           | Inr (cs, si'') \<Rightarrow> Inr (c # cs, si'')))"

text \<open>
  \<open>ApplyCallFilters\<close>: \<open>formats\<close> are the FORMAT ids declared in the reader's header.
\<close>

definition ApplyCallFilters ::
  "filters_module \<Rightarrow> vcf_record \<Rightarrow> string list \<Rightarrow> call_filter list \<Rightarrow> sample_info
     \<Rightarrow> error + (vcf_record \<times> sample_info)" where
  "ApplyCallFilters fm record formats call_filters si =
     (let flds = samp_fmt_fields (FORMAT record) in
      case check_formats formats (FORMAT record) flds of
        Inl e \<Rightarrow> Inl e
      | Inr _ \<Rightarrow>
          (case apply_calls fm flds call_filters si (samples record) of
             Inl e \<Rightarrow> Inl e
           | Inr (new_samples, si') \<Rightarrow> Inr (record\<lparr>samples := new_samples\<rparr>, si')))"

section \<open>Building the filter lists\<close>

record args =
  min_call_DP :: "int option"
  max_call_DP :: "int option"
  min_call_Q :: "rat option"
  max_call_flank_indel :: "rat option"
  max_call_stutter :: "rat option"
  min_locus_callrate :: "rat option"
  min_locus_hwep :: "rat option"
  min_locus_het :: "rat option"
  max_locus_het :: "rat option"
  use_length :: bool
  filter_regions :: "string option"
  filter_regions_names :: "string option"
  filter_hrun :: bool
  drop_filtered :: bool
  num_records :: "int option"

text \<open>
  \<open>CheckFilters\<close>: the checks on the call-level options against the FORMAT ids of the
  reader's header; \<open>common.ERROR\<close> ends the program.
\<close>

definition CheckFilters :: "string list \<Rightarrow> args \<Rightarrow> error + unit" where
  "CheckFilters formats a =
     (if (case min_call_DP a of None \<Rightarrow> False
          | Some t \<Rightarrow> t < 0 \<or> ''DP'' \<notin> set formats) then Inl ConfigError
      else if (case max_call_DP a of None \<Rightarrow> False
          | Some t \<Rightarrow> t < 0 \<or> (case min_call_DP a of None \<Rightarrow> False | Some m \<Rightarrow> t \<le> m) \<or>
                     ''DP'' \<notin> set formats) then Inl ConfigError
      else if (case min_call_Q a of None \<Rightarrow> False
          | Some t \<Rightarrow> t < 0 \<or> t > 1 \<or> ''Q'' \<notin> set formats) then Inl ConfigError
      else if (case max_call_flank_indel a of None \<Rightarrow> False
          | Some t \<Rightarrow> t < 0 \<or> t > 1 \<or> ''DP'' \<notin> set formats \<or>
                     ''DFLANKINDEL'' \<notin> set formats) then Inl ConfigError
      else if (case max_call_stutter a of None \<Rightarrow> False
          | Some t \<Rightarrow> t < 0 \<or> t > 1 \<or> ''DP'' \<notin> set formats \<or>
                     ''DSTUTTER'' \<notin> set formats) then Inl ConfigError
      else Inr ())"

definition BuildCallFilters :: "args \<Rightarrow> call_filter list" where
  "BuildCallFilters a =
     (case min_call_DP a of None \<Rightarrow> [] | Some t \<Rightarrow> [LowCallDepth t]) @
     (case max_call_DP a of None \<Rightarrow> [] | Some t \<Rightarrow> [HighCallDepth t]) @
     (case min_call_Q a of None \<Rightarrow> [] | Some t \<Rightarrow> [LowCallQ t]) @
     (case max_call_flank_indel a of None \<Rightarrow> [] | Some t \<Rightarrow> [CallFlankIndels t]) @
     (case max_call_stutter a of None \<Rightarrow> [] | Some t \<Rightarrow> [CallStutter t])"

text \<open>\<open>str(i)\<close> for a natural number.\<close>

fun digit_char :: "nat \<Rightarrow> char" where
  "digit_char n = char_of (48 + n)"

fun str_nat :: "nat \<Rightarrow> string" where
  "str_nat n = (if n < 10 then [digit_char n] else str_nat (n div 10) @ [digit_char (n mod 10)])"

declare str_nat.simps [simp del]

text \<open>
  \<open>BuildLocusFilters\<close>. The flag \<open>filter_hrun\<close> is a \<open>store_true\<close> option, so it is
  \<open>False\<close> or \<open>True\<close> and never \<open>None\<close>: the test \<open>is not None\<close> always succeeds.
\<close>

definition BuildLocusFilters :: "args \<Rightarrow> error + locus_filter list" where
  "BuildLocusFilters a =
     (let fdict =
        (case min_locus_callrate a of None \<Rightarrow> [] | Some t \<Rightarrow> [Filter_MinLocusCallrate t]) @
        (case min_locus_hwep a of None \<Rightarrow> [] | Some t \<Rightarrow> [Filter_MinLocusHWEP t (use_length a)]) @
        (case min_locus_het a of None \<Rightarrow> [] | Some t \<Rightarrow> [Filter_MinLocusHet t (use_length a)]) @
        (case max_locus_het a of None \<Rightarrow> [] | Some t \<Rightarrow> [Filter_MaxLocusHet t (use_length a)]) @
        [Filter_LocusHrun]
      in case filter_regions a of
           None \<Rightarrow> Inr fdict
         | Some fr \<Rightarrow>
             (let filter_region_files = split_on CHR '','' fr in
              case filter_regions_names a of
                Some frn \<Rightarrow>
                  (let filter_region_names = split_on CHR '','' frn in
                   if length filter_region_names \<noteq> length filter_region_files then Inl ConfigError
                   else Inr (fdict @ map2 Filter_Regions filter_region_names filter_region_files))
              | None \<Rightarrow>
                  Inr (fdict @ map2 Filter_Regions
                         (map str_nat [0 ..< length filter_region_files]) filter_region_files)))"

section \<open>Locus-level filtering and the statistics of a record\<close>

type_synonym loc_info = "(string \<times> int) list"

text \<open>\<open>record.add_filter(name)\<close> of the VCF library: a FILTER of \<open>None\<close> becomes a list first.\<close>

definition add_filter :: "vcf_record \<Rightarrow> string \<Rightarrow> error + vcf_record" where
  "add_filter r name =
     (case FILTER r of
        FNone \<Rightarrow> Inr (r\<lparr>FILTER := FList [name]\<rparr>)
      | FList l \<Rightarrow> Inr (r\<lparr>FILTER := FList (l @ [name])\<rparr>)
      | FPass \<Rightarrow> Inl AttributeError)"

text \<open>\<open>loc_info[k] += n\<close>.\<close>

definition incr_loc :: "loc_info \<Rightarrow> string \<Rightarrow> int \<Rightarrow> error + loc_info" where
  "incr_loc li k n = (case dict_get li k of Inl e \<Rightarrow> Inl e | Inr v \<Rightarrow> Inr (dict_set li k (v + n)))"

text \<open>
  The loop over \<open>filter_list\<close> for one record (lines 352-358). It returns \<open>output_record\<close>, the record,
  \<open>loc_info\<close> and, as a ghost value, the locus filters that were called, in call order.
\<close>

fun locus_filter_loop ::
  "filters_module \<Rightarrow> bool \<Rightarrow> locus_filter list \<Rightarrow> vcf_record \<Rightarrow> loc_info
     \<Rightarrow> error + (bool \<times> vcf_record \<times> loc_info \<times> locus_filter list)" where
  "locus_filter_loop fm dropf [] r li = Inr (True, r, li, [])"
| "locus_filter_loop fm dropf (filt # rest) r li =
     (if locus_filter_call fm filt r = VNone then
        (case locus_filter_loop fm dropf rest r li of
           Inl e \<Rightarrow> Inl e
         | Inr (out, r', li', called) \<Rightarrow> Inr (out, r', li', filt # called))
      else if dropf then Inr (False, r, li, [filt])
      else
        (case add_filter r (filter_name fm filt) of
           Inl e \<Rightarrow> Inl e
         | Inr r1 \<Rightarrow>
             (case incr_loc li (filter_name fm filt) 1 of
                Inl e \<Rightarrow> Inl e
              | Inr li1 \<Rightarrow>
                  (case locus_filter_loop fm dropf rest r1 li1 of
                     Inl e \<Rightarrow> Inl e
                   | Inr (out, r', li', called) \<Rightarrow> Inr (out, r', li', filt # called)))))"

text \<open>\<open>int(x)\<close> on a float: truncation toward zero.\<close>

definition py_int :: "rat \<Rightarrow> int" where
  "py_int x = (if 0 \<le> x then \<lfloor>x\<rfloor> else \<lceil>x\<rceil>)"

definition set_info :: "vcf_record \<Rightarrow> string \<Rightarrow> val \<Rightarrow> vcf_record" where
  "set_info r k v = r\<lparr>INFO := dict_set (INFO r) k v\<rparr>"

text \<open>
  The assignments to \<open>record.INFO\<close> (lines 361-373), one function per statement; each reads the record as
  the statements before it have left it.
\<close>

definition set_HRUN :: "stats_module \<Rightarrow> vcf_record \<Rightarrow> vcf_record" where
  "set_HRUN sm r = set_info r ''HRUN'' (GetHomopolymerRun sm (REF r))"

definition set_HET :: "stats_module \<Rightarrow> bool \<Rightarrow> vcf_record \<Rightarrow> vcf_record" where
  "set_HET sm ul r = set_info r ''HET'' (if ul then GetLengthHet sm r else heterozygosity sm r)"

definition set_HWEP :: "stats_module \<Rightarrow> bool \<Rightarrow> vcf_record \<Rightarrow> vcf_record" where
  "set_HWEP sm ul r = set_info r ''HWEP'' (GetSTRHWE sm r ul)"

definition set_AC :: "stats_module \<Rightarrow> vcf_record \<Rightarrow> vcf_record" where
  "set_AC sm r =
     set_info r ''AC''
       (VList (map (\<lambda>item. VInt (py_int (item * of_nat (2 * num_called sm r)))) (aaf sm r)))"

definition set_REFAC :: "stats_module \<Rightarrow> vcf_record \<Rightarrow> vcf_record" where
  "set_REFAC sm r =
     set_info r ''REFAC'' (VInt (py_int ((1 - sum_list (aaf sm r)) * of_nat (2 * num_called sm r))))"

definition recalc_info :: "stats_module \<Rightarrow> bool \<Rightarrow> vcf_record \<Rightarrow> vcf_record" where
  "recalc_info sm ul r =
     (let r0 = set_HRUN sm r in
      if num_called sm r0 > 0 then
        set_REFAC sm (set_AC sm (set_HWEP sm ul (set_HET sm ul r0)))
      else
        set_info
          (set_info
            (set_info (set_info r0 ''HET'' (VInt (- 1))) ''HWEP'' (VInt (- 1)))
            ''AC'' (VList (replicate (length (ALT r0)) (VInt 0))))
          ''REFAC'' (VInt 0))"

record run_state =
  sample_info_of :: sample_info
  loc_info_of :: loc_info
  outvcf :: "vcf_record list"

text \<open>
  The body of the loop over the records (lines 346-380), after the record-count test. The second component
  of the result is the ghost list of locus filters called for this record.
\<close>

definition process_record ::
  "filters_module \<Rightarrow> stats_module \<Rightarrow> args \<Rightarrow> string list \<Rightarrow> locus_filter list \<Rightarrow> call_filter list
     \<Rightarrow> run_state \<Rightarrow> vcf_record \<Rightarrow> error + (run_state \<times> locus_filter list)" where
  "process_record fm sm a formats filter_list call_filters st record =
     (case ApplyCallFilters fm record formats call_filters (sample_info_of st) of
        Inl e \<Rightarrow> Inl e
      | Inr (r1, si') \<Rightarrow>
          (case locus_filter_loop fm (drop_filtered a) filter_list (r1\<lparr>FILTER := FNone\<rparr>)
                  (loc_info_of st) of
             Inl e \<Rightarrow> Inl e
           | Inr (output_record, r2, li', called) \<Rightarrow>
               if output_record then
                 (let r3 = recalc_info sm (use_length a) r2 in
                  if FILTER r3 = FNone \<and> \<not> drop_filtered a then
                    (let r4 = r3\<lparr>FILTER := FPass\<rparr> in
                     case incr_loc li' ''PASS'' 1 of
                       Inl e \<Rightarrow> Inl e
                     | Inr li1 \<Rightarrow>
                         (case incr_loc li1 ''totalcalls'' (int (num_called sm r4)) of
                            Inl e \<Rightarrow> Inl e
                          | Inr li2 \<Rightarrow>
                              Inr (\<lparr>sample_info_of = si', loc_info_of = li2,
                                    outvcf = outvcf st @ [r4]\<rparr>, called)))
                  else
                    Inr (\<lparr>sample_info_of = si', loc_info_of = li', outvcf = outvcf st @ [r3]\<rparr>,
                         called))
               else
                 Inr (\<lparr>sample_info_of = si', loc_info_of = li', outvcf = outvcf st\<rparr>, called)))"

text \<open>The loop over the records of the reader, with the record counter and its cut-off.\<close>

fun process_records ::
  "filters_module \<Rightarrow> stats_module \<Rightarrow> args \<Rightarrow> string list \<Rightarrow> locus_filter list \<Rightarrow> call_filter list
     \<Rightarrow> int \<Rightarrow> run_state \<Rightarrow> vcf_record list \<Rightarrow> error + run_state" where
  "process_records fm sm a formats filter_list call_filters record_counter st [] = Inr st"
| "process_records fm sm a formats filter_list call_filters record_counter st (record # rest) =
     (if (case num_records a of None \<Rightarrow> False | Some n \<Rightarrow> record_counter + 1 > n) then Inr st
      else
        (case process_record fm sm a formats filter_list call_filters st record of
           Inl e \<Rightarrow> Inl e
         | Inr (st', called) \<Rightarrow>
             process_records fm sm a formats filter_list call_filters (record_counter + 1) st' rest))"

section \<open>Initial statistics and the logs\<close>

definition init_sample_info :: "filters_module \<Rightarrow> string list \<Rightarrow> sample_info" where
  "init_sample_info fm smps =
     foldl (\<lambda>si s. dict_set si s
              (foldl (\<lambda>d r. dict_set d r (NInt 0))
                 [(''numcalls'', NInt 0), (''totaldp'', NInt 0)] (reason_names fm)))
       [] smps"

definition init_loc_info :: "filters_module \<Rightarrow> locus_filter list \<Rightarrow> loc_info" where
  "init_loc_info fm filter_list =
     foldl (\<lambda>li filt. dict_set li (filter_name fm filt) 0)
       [(''totalcalls'', 0), (''PASS'', 0)] filter_list"

text \<open>
  \<open>WriteLocLog\<close>: the lines of the log as pairs of label and value. \<open>keys.remove\<close> raises
  ValueError when the key is absent.
\<close>

definition WriteLocLog :: "loc_info \<Rightarrow> error + (string \<times> num) list" where
  "WriteLocLog li =
     (let keys = map fst li in
      if ''totalcalls'' \<notin> set keys then Inl ValueError
      else
        (let keys' = remove1 ''totalcalls'' keys in
         case dict_get li ''PASS'' of
           Inl e \<Rightarrow> Inl e
         | Inr p \<Rightarrow>
             (case (if p = 0 then Inr (NInt 0)
                    else (case dict_get li ''totalcalls'' of
                            Inl e \<Rightarrow> Inl e
                          | Inr t \<Rightarrow> Inr (NFloat (of_int t * 1 / of_int p)))) of
                Inl e \<Rightarrow> Inl e
              | Inr callrate \<Rightarrow>
                  Inr ((''MeanSamplesPerPassingSTR'', callrate) #
                       map (\<lambda>k. (''FILTER:'' @ k, NInt (the (map_of li k)))) keys'))))"

text \<open>
  \<open>WriteSampLog\<close>: the header and, for each sample of \<open>sample_info\<close>, the sample name, its
  \<open>numcalls\<close>, the mean depth (the int 0 when \<open>numcalls\<close> is not positive) and its counter
  for each reason.
\<close>

fun map_err :: "('a \<Rightarrow> error + 'b) \<Rightarrow> 'a list \<Rightarrow> error + 'b list" where
  "map_err f [] = Inr []"
| "map_err f (x # xs) =
     (case f x of
        Inl e \<Rightarrow> Inl e
      | Inr y \<Rightarrow> (case map_err f xs of Inl e \<Rightarrow> Inl e | Inr ys \<Rightarrow> Inr (y # ys)))"

definition samp_row :: "sample_info \<Rightarrow> string list \<Rightarrow> string \<Rightarrow> error + (string \<times> num \<times> num \<times> num list)" where
  "samp_row si reasons s =
     (case dict_get si s of
        Inl e \<Rightarrow> Inl e
      | Inr d \<Rightarrow>
          (case dict_get d ''numcalls'' of
             Inl e \<Rightarrow> Inl e
           | Inr numcalls \<Rightarrow>
               (case (if num_val numcalls > 0 then
                        (case dict_get d ''totaldp'' of
                           Inl e \<Rightarrow> Inl e
                         | Inr t \<Rightarrow> Inr (NFloat (num_val t * 1 / num_val numcalls)))
                      else Inr (NInt 0)) of
                  Inl e \<Rightarrow> Inl e
                | Inr meancov \<Rightarrow>
                    (case map_err (dict_get d) reasons of
                       Inl e \<Rightarrow> Inl e
                     | Inr counts \<Rightarrow> Inr (s, numcalls, meancov, counts)))))"

definition WriteSampLog ::
  "sample_info \<Rightarrow> string list \<Rightarrow> error + (string list \<times> (string \<times> num \<times> num \<times> num list) list)" where
  "WriteSampLog si reasons =
     (case map_err (samp_row si reasons) (map fst si) of
        Inl e \<Rightarrow> Inl e
      | Inr rows \<Rightarrow> Inr ([''sample'', ''numcalls'', ''meanDP''] @ reasons, rows))"

record output_logs =
  samp_log :: "string list \<times> (string \<times> num \<times> num \<times> num list) list"
  loc_log :: "(string \<times> num) list"

text \<open>
  \<open>main\<close> after the argument parser and the opening of the files: the checks, the filter
  lists, the FORMAT declaration of \<open>FILTER\<close>, the initial statistics, the loop over the
  records and the two logs. \<open>formats\<close> and \<open>smps\<close> are the FORMAT ids and the sample names
  of the reader's header, \<open>records\<close> the records it yields.
\<close>

definition main ::
  "filters_module \<Rightarrow> stats_module \<Rightarrow> args \<Rightarrow> string list \<Rightarrow> string list \<Rightarrow> vcf_record list
     \<Rightarrow> error + (run_state \<times> output_logs)" where
  "main fm sm a formats smps records =
     (case CheckFilters formats a of
        Inl e \<Rightarrow> Inl e
      | Inr _ \<Rightarrow>
     (case BuildLocusFilters a of
        Inl e \<Rightarrow> Inl e
      | Inr filter_list \<Rightarrow>
          (let call_filters = BuildCallFilters a;
               formats' = (if ''FILTER'' \<in> set formats then formats else formats @ [''FILTER'']);
               st0 = \<lparr>sample_info_of = init_sample_info fm smps,
                      loc_info_of = init_loc_info fm filter_list, outvcf = []\<rparr>
           in case process_records fm sm a formats' filter_list call_filters 0 st0 records of
                Inl e \<Rightarrow> Inl e
              | Inr st \<Rightarrow>
                  (case WriteSampLog (sample_info_of st) (reason_names fm) of
                     Inl e \<Rightarrow> Inl e
                   | Inr sl \<Rightarrow>
                       (case WriteLocLog (loc_info_of st) of
                          Inl e \<Rightarrow> Inl e
                        | Inr ll \<Rightarrow> Inr (st, \<lparr>samp_log = sl, loc_log = ll\<rparr>))))))"

section \<open>An instance of the collaborating modules\<close>

text \<open>
  Modelled from the spec: the \<open>filters\<close> module is not among the sources. The instance
  below follows the description of the filter variants: a call-level filter returns its
  reason name when the call fails its threshold and \<open>None\<close> otherwise, a locus-level
  filter returns its own filter name or \<open>None\<close>, and a region filter carries the name it
  was given. It serves as a concrete module for the scenarios; the theorems hold for
  every module.
\<close>

fun val_rat :: "val \<Rightarrow> rat option" where
  "val_rat (VInt i) = Some (of_int i)"
| "val_rat (VFloat q) = Some q"
| "val_rat _ = None"

definition attr_rat :: "call \<Rightarrow> string \<Rightarrow> rat option" where
  "attr_rat c k = (case map_of (data c) k of None \<Rightarrow> None | Some v \<Rightarrow> val_rat v)"

definition verdict :: "bool \<Rightarrow> string \<Rightarrow> val" where
  "verdict fails name = (if fails then VStr name else VNone)"

text \<open>Modelled from the spec: the reason names of the five call-level variants.\<close>

fun ex_GetReason :: "call_filter \<Rightarrow> string" where
  "ex_GetReason (LowCallDepth t) = ''LowCallDepth''"
| "ex_GetReason (HighCallDepth t) = ''HighCallDepth''"
| "ex_GetReason (LowCallQ t) = ''LowCallQuality''"
| "ex_GetReason (CallFlankIndels t) = ''HighFlankIndelRate''"
| "ex_GetReason (CallStutter t) = ''HighStutterRate''"

text \<open>
  Modelled from the spec: the call-level variants compare the coverage depth, the quality
  score and the ratios of flank-indel and stutter counts to the coverage depth with their
  thresholds.
\<close>

fun ex_call_filter_call :: "call_filter \<Rightarrow> call \<Rightarrow> val" where
  "ex_call_filter_call (LowCallDepth t) c =
     verdict (case attr_rat c ''DP'' of Some dp \<Rightarrow> dp < of_int t | None \<Rightarrow> False)
       ''LowCallDepth''"
| "ex_call_filter_call (HighCallDepth t) c =
     verdict (case attr_rat c ''DP'' of Some dp \<Rightarrow> dp > of_int t | None \<Rightarrow> False)
       ''HighCallDepth''"
| "ex_call_filter_call (LowCallQ t) c =
     verdict (case attr_rat c ''Q'' of Some q \<Rightarrow> q < t | None \<Rightarrow> False) ''LowCallQuality''"
| "ex_call_filter_call (CallFlankIndels t) c =
     verdict (case (attr_rat c ''DFLANKINDEL'', attr_rat c ''DP'') of
                (Some n, Some dp) \<Rightarrow> dp \<noteq> 0 \<and> n / dp > t | _ \<Rightarrow> False)
       ''HighFlankIndelRate''"
| "ex_call_filter_call (CallStutter t) c =
     verdict (case (attr_rat c ''DSTUTTER'', attr_rat c ''DP'') of
                (Some n, Some dp) \<Rightarrow> dp \<noteq> 0 \<and> n / dp > t | _ \<Rightarrow> False)
       ''HighStutterRate''"

text \<open>
  The properties of a record, which the VCF library computes from its calls, in this
  instance: a call is completed when its genotype is a string other than \<open>./.\<close> and
  \<open>.\<close>; the frequency of an alternate allele is its share among the alleles of the
  completed calls; the heterozygosity is one minus the sum of the squared allele
  frequencies.
\<close>

definition ex_called :: "call \<Rightarrow> bool" where
  "ex_called c =
     (case map_of (data c) ''GT'' of Some (VStr g) \<Rightarrow> g \<noteq> ''./.'' \<and> g \<noteq> ''.'' | _ \<Rightarrow> False)"

definition ex_num_called :: "vcf_record \<Rightarrow> nat" where
  "ex_num_called r = length (filter ex_called (samples r))"

definition ex_gt_alleles :: "call \<Rightarrow> string list" where
  "ex_gt_alleles c =
     (case map_of (data c) ''GT'' of
        Some (VStr g) \<Rightarrow> split_on CHR ''/'' (map (\<lambda>x. if x = CHR ''|'' then CHR ''/'' else x) g)
      | _ \<Rightarrow> [])"

definition ex_aaf :: "vcf_record \<Rightarrow> rat list" where
  "ex_aaf r =
     (let alleles = concat (map ex_gt_alleles (filter ex_called (samples r)));
          num_chroms = length alleles
      in map (\<lambda>i. of_nat (count_list alleles (str_nat i)) / of_nat num_chroms)
           [1 ..< length (ALT r) + 1])"

definition ex_heterozygosity :: "vcf_record \<Rightarrow> val" where
  "ex_heterozygosity r =
     VFloat (1 - (1 - sum_list (ex_aaf r))\<^sup>2 - sum_list (map (\<lambda>p. p\<^sup>2) (ex_aaf r)))"

text \<open>
  Modelled from the spec: the longest run of one repeated symbol in a sequence, 0 for the
  empty sequence. \<open>hrun_scan prev cur best\<close> scans the rest of the sequence once.
\<close>

fun hrun_scan :: "char \<Rightarrow> nat \<Rightarrow> nat \<Rightarrow> string \<Rightarrow> nat" where
  "hrun_scan prev cur best [] = max cur best"
| "hrun_scan prev cur best (x # xs) =
     (if x = prev then hrun_scan prev (cur + 1) best xs
      else hrun_scan x 1 (max cur best) xs)"

fun ex_GetHomopolymerRun :: "string \<Rightarrow> val" where
  "ex_GetHomopolymerRun [] = VInt 0"
| "ex_GetHomopolymerRun (x # xs) = VInt (int (hrun_scan x 1 0 xs))"

text \<open>
  The region files of the scenarios: each file name stands for its list of intervals
  (chromosome, start, end).
\<close>

definition ex_region_file :: "string \<Rightarrow> (string \<times> int \<times> int) list" where
  "ex_region_file f =
     (if f = ''segdup.bed'' then [(''chr1'', 100, 200)]
      else if f = ''lowcomplexity.bed'' then [(''chr1'', 150, 300)]
      else [])"

text \<open>Modelled from the spec: the names of the locus-level variants.\<close>

fun ex_filter_name :: "locus_filter \<Rightarrow> string" where
  "ex_filter_name (Filter_MinLocusCallrate t) = ''MinLocusCallrate''"
| "ex_filter_name (Filter_MinLocusHWEP t ul) = ''MinLocusHWEP''"
| "ex_filter_name (Filter_MinLocusHet t ul) = ''MinLocusHet''"
| "ex_filter_name (Filter_MaxLocusHet t ul) = ''MaxLocusHet''"
| "ex_filter_name Filter_LocusHrun = ''LocusHrun''"
| "ex_filter_name (Filter_Regions name file) = name"

text \<open>
  Modelled from the spec: the call-rate filter fails a locus whose share of completed calls
  is below the minimum, a region filter fails a locus that lies in one of its intervals.
  The heterozygosity, equilibrium and homopolymer filters let every record of the
  scenarios pass.
\<close>

fun ex_locus_filter_call :: "locus_filter \<Rightarrow> vcf_record \<Rightarrow> val" where
  "ex_locus_filter_call (Filter_MinLocusCallrate t) r =
     verdict (samples r \<noteq> [] \<and> of_nat (ex_num_called r) / of_nat (length (samples r)) < t)
       ''MinLocusCallrate''"
| "ex_locus_filter_call (Filter_Regions name file) r =
     verdict (list_ex (\<lambda>(c, s, e). c = CHROM r \<and> s \<le> POS r \<and> POS r < e) (ex_region_file file))
       name"
| "ex_locus_filter_call _ r = VNone"

definition fm_ex :: filters_module where
  "fm_ex = \<lparr>GetReason = ex_GetReason, call_filter_call = ex_call_filter_call,
            filter_name = ex_filter_name, locus_filter_call = ex_locus_filter_call,
            reason_names = [''LowCallDepth'', ''HighCallDepth'', ''LowCallQuality'',
                            ''HighFlankIndelRate'', ''HighStutterRate'']\<rparr>"

text \<open>
  The statistics of the scenarios; the length-collapsed heterozygosity and the
  equilibrium test are not computed in this instance.
\<close>

definition sm_ex :: stats_module where
  "sm_ex = \<lparr>num_called = ex_num_called, aaf = ex_aaf, heterozygosity = ex_heterozygosity,
            GetHomopolymerRun = ex_GetHomopolymerRun,
            GetLengthHet = (\<lambda>r. VFloat 0), GetSTRHWE = (\<lambda>r ul. VFloat 1)\<rparr>"

text \<open>The arguments when no option is given.\<close>

definition args0 :: args where
  "args0 = \<lparr>min_call_DP = None, max_call_DP = None, min_call_Q = None,
            max_call_flank_indel = None, max_call_stutter = None,
            min_locus_callrate = None, min_locus_hwep = None, min_locus_het = None,
            max_locus_het = None, use_length = False, filter_regions = None,
            filter_regions_names = None, filter_hrun = False, drop_filtered = False,
            num_records = None\<rparr>"

definition mk_call :: "string \<Rightarrow> val \<Rightarrow> val \<Rightarrow> call" where
  "mk_call s g dp = \<lparr>sample = s, data = [(''GT'', g), (''DP'', dp)]\<rparr>"

text \<open>
  A locus on chr1 at position 160 with two samples: a diploid call of depth 5 and a
  haploid call of depth 20.
\<close>

definition rec1 :: vcf_record where
  "rec1 = \<lparr>CHROM = ''chr1'', POS = 160, REF = ''ACACAC'', ALT = [''ACAC''], FORMAT = ''GT:DP'',
           samples = [mk_call ''s1'' (VStr ''0/1'') (VInt 5), mk_call ''s2'' (VStr ''1'') (VInt 20)],
           FILTER = FNone, INFO = []\<rparr>"

text \<open>The same locus with both genotypes missing.\<close>

definition rec0 :: vcf_record where
  "rec0 = rec1\<lparr>samples := [mk_call ''s1'' (VStr ''./.'') (VInt 7), mk_call ''s2'' VNone VNone]\<rparr>"

section \<open>Notions used in the statements\<close>

text \<open>
  The locus filters of a list that do not return \<open>None\<close> when the loop calls them in
  annotate mode: each is called on the record as the failures before it have left it.
\<close>

fun failed_filters :: "filters_module \<Rightarrow> locus_filter list \<Rightarrow> vcf_record \<Rightarrow> locus_filter list" where
  "failed_filters fm [] r = []"
| "failed_filters fm (filt # rest) r =
     (if locus_filter_call fm filt r = VNone then failed_filters fm rest r
      else filt # failed_filters fm rest
                   (case add_filter r (filter_name fm filt) of Inr r1 \<Rightarrow> r1 | Inl e \<Rightarrow> r))"


text \<open>The dictionary holds a counter for every name that the loop over the records uses.\<close>

definition loc_keys_ok :: "filters_module \<Rightarrow> locus_filter list \<Rightarrow> loc_info \<Rightarrow> bool" where
  "loc_keys_ok fm filter_list li =
     (map_of li ''PASS'' \<noteq> None \<and> map_of li ''totalcalls'' \<noteq> None \<and>
      list_all (\<lambda>filt. map_of li (filter_name fm filt) \<noteq> None) filter_list)"

text \<open>
  A locus whose FORMAT has a key that contains the text \<open>FILTER\<close> without being it: a
  completed call and a missing call.
\<close>

definition call_x1 :: call where
  "call_x1 = \<lparr>sample = ''s1'',
              data = [(''GT'', VStr ''0/1''), (''DP'', VInt 5), (''XFILTER'', VStr ''a'')]\<rparr>"

definition call_x2 :: call where
  "call_x2 = \<lparr>sample = ''s2'',
              data = [(''GT'', VStr ''./.''), (''DP'', VInt 7), (''XFILTER'', VNone)]\<rparr>"

definition rec_x :: vcf_record where
  "rec_x = rec1\<lparr>FORMAT := ''GT:DP:XFILTER'', samples := [call_x1, call_x2]\<rparr>"

text \<open>The names already in a FILTER, none for \<open>None\<close>.\<close>

definition prev_names :: "filter_status \<Rightarrow> string list" where
  "prev_names fs = (case fs of FList l \<Rightarrow> l | _ \<Rightarrow> [])"

text \<open>
  The records that the loop over the reader processes when the record counter stands at
  \<open>rc\<close>: all of them, or those before the cut-off of \<open>--num-records\<close>.
\<close>

definition processed :: "args \<Rightarrow> int \<Rightarrow> vcf_record list \<Rightarrow> vcf_record list" where
  "processed a rc records =
     (case num_records a of None \<Rightarrow> records | Some n \<Rightarrow> take (nat (n - rc)) records)"

text \<open>The passing filters of a list on a record that the loop does not change (drop mode).\<close>

definition passes :: "filters_module \<Rightarrow> vcf_record \<Rightarrow> locus_filter \<Rightarrow> bool" where
  "passes fm r filt = (locus_filter_call fm filt r = VNone)"


definition args_pass :: args where
  "args_pass = args0\<lparr>filter_regions := Some ''segdup.bed'',
                     filter_regions_names := Some ''PASS''\<rparr>"

definition args_drop :: args where
  "args_drop = args0\<lparr>min_locus_callrate := Some (4 / 5), filter_regions := Some ''segdup.bed'',
                     drop_filtered := True\<rparr>"

definition args_annot :: args where
  "args_annot = args0\<lparr>min_locus_callrate := Some (4 / 5), filter_regions := Some ''segdup.bed'',
                      filter_regions_names := Some ''SEGDUP''\<rparr>"

text \<open>The locus \<open>rec1\<close> moved out of every region of the scenarios.\<close>

definition rec2 :: vcf_record where
  "rec2 = rec1\<lparr>POS := 5000\<rparr>"

text \<open>Projections of the result of \<open>main\<close>: a counter of the locus log, the records written.\<close>

definition counter_after :: "error + run_state \<times> output_logs \<Rightarrow> string \<Rightarrow> int option" where
  "counter_after res k = (case res of Inl e \<Rightarrow> None | Inr (st, loclog) \<Rightarrow> map_of (loc_info_of st) k)"

definition written :: "error + run_state \<times> output_logs \<Rightarrow> vcf_record list" where
  "written res = (case res of Inl e \<Rightarrow> [] | Inr (st, loclog) \<Rightarrow> outvcf st)"

text \<open>The number of written records whose FILTER is not \<open>PASS\<close>.\<close>

definition failing_loci :: "error + run_state \<times> output_logs \<Rightarrow> nat" where
  "failing_loci res = length (filter (\<lambda>r. FILTER r \<noteq> FPass) (written res))"

section \<open>Facts about dictionaries and the call loop\<close>

lemma FilterCall_eq:
  "FilterCall fm smp fs =
     (map (GetReason fm) (filter (\<lambda>f. call_filter_call fm f smp \<noteq> VNone) fs), fs)"
  by (induction fs) simp_all

lemma map_of_dict_set: "map_of (dict_set d k v) = (map_of d)(k \<mapsto> v)"
  by (simp add: dict_set_def update_conv')

lemma dict_get_Some: "map_of d k = Some v \<Longrightarrow> dict_get d k = Inr v"
  by (simp add: dict_get_def)

lemma incr_sample_ok:
  "map_of si s = Some d \<Longrightarrow> map_of d r = Some v \<Longrightarrow>
   incr_sample si s r = Inr (dict_set si s (dict_set d r (add_one v)))"
  by (simp add: incr_sample_def dict_get_Some)




section \<open>Calls that fail a call filter\<close>




lemma add_one_val: "num_val (add_one v) = num_val v + 1"
  by (cases v) simp_all




section \<open>Calls that pass and calls that are missing\<close>

lemma copy_fields_ok:
  "\<forall>k \<in> set flds. k \<noteq> ''FILTER'' \<longrightarrow> map_of (data smp) k \<noteq> None \<Longrightarrow>
   copy_fields smp st flds =
     Inr (map (\<lambda>k. if k = ''FILTER'' then VStr st else the (map_of (data smp) k)) flds)"
  by (induction flds) (auto simp: getitem_def)

lemma map_of_zip_map:
  "map_of (zip ks (map f ks)) k = (if k \<in> set ks then Some (f k) else None)"
  by (induction ks) auto

lemma FILTER_in_samp_fmt_fields:
  "\<not> str_contains ''FILTER'' fmt \<or> ''FILTER'' \<in> set (split_on CHR '':'' fmt) \<Longrightarrow>
   ''FILTER'' \<in> set (samp_fmt_fields fmt)"
  by (auto simp: samp_fmt_fields_def)




lemma incr_then_totaldp:
  assumes d: "map_of si s = Some d" and n: "map_of d ''numcalls'' = Some n"
    and t: "map_of d ''totaldp'' = Some t" and smp: "sample smp = s"
    and dp: "getitem smp ''DP'' = Inr dp" and ad: "add_val t dp = Inr t'"
  shows "\<exists>si1 si2 d2. incr_sample si s ''numcalls'' = Inr si1 \<and> add_totaldp si1 smp = Inr si2 \<and>
           map_of si2 s = Some d2 \<and>
           map_of d2 = (map_of d)(''numcalls'' \<mapsto> add_one n, ''totaldp'' \<mapsto> t') \<and>
           (\<forall>s'. s' \<noteq> s \<longrightarrow> map_of si2 s' = map_of si s')"
proof -
  let ?d1 = "dict_set d ''numcalls'' (add_one n)"
  let ?si1 = "dict_set si s ?d1"
  let ?d2 = "dict_set ?d1 ''totaldp'' t'"
  let ?si2 = "dict_set ?si1 s ?d2"
  have a: "incr_sample si s ''numcalls'' = Inr ?si1" using d n by (rule incr_sample_ok)
  have t1: "map_of ?d1 ''totaldp'' = Some t" using t by (simp add: map_of_dict_set)
  have b: "add_totaldp ?si1 smp = Inr ?si2"
    using smp dp ad t1 by (simp add: add_totaldp_def dict_get_def map_of_dict_set)
  show ?thesis using a b by (auto simp: map_of_dict_set)
qed

text \<open>
  A call with a present genotype that no call filter fails keeps its attributes, the field
  \<open>FILTER\<close> of the output tuple, when it has one, is \<open>PASS\<close>, \<open>numcalls\<close> is incremented
  once and \<open>totaldp\<close> grows by the call's \<open>DP\<close>.
\<close>

lemma passing_call_marked_PASS:
  assumes gt: "getitem smp ''GT'' = Inr gt" "\<not> gt_missing gt"
    and pass: "\<forall>f\<in>set call_filters. call_filter_call fm f smp = VNone"
    and attrs: "\<forall>k \<in> set flds. k \<noteq> ''FILTER'' \<longrightarrow> map_of (data smp) k \<noteq> None"
    and keys: "map_of si (sample smp) = Some d" "map_of d ''numcalls'' = Some n"
              "map_of d ''totaldp'' = Some t"
    and dp: "getitem smp ''DP'' = Inr dp" "add_val t dp = Inr t'"
  shows "\<exists>c' si' d'. apply_call fm flds call_filters si smp = Inr (c', si', call_filters) \<and>
           sample c' = sample smp \<and> map fst (data c') = flds \<and>
           (\<forall>k \<in> set flds. map_of (data c') k =
              (if k = ''FILTER'' then Some (VStr ''PASS'') else map_of (data smp) k)) \<and>
           map_of si' (sample smp) = Some d' \<and>
           map_of d' = (map_of d)(''numcalls'' \<mapsto> add_one n, ''totaldp'' \<mapsto> t')"
proof -
  let ?vs = "map (\<lambda>k. if k = ''FILTER'' then VStr ''PASS'' else the (map_of (data smp) k)) flds"
  have fc: "FilterCall fm smp call_filters = ([], call_filters)"
    using pass by (simp add: FilterCall_eq filter_empty_conv)
  from incr_then_totaldp [OF keys(1,2,3) refl dp] obtain si1 si2 d2 where
    r: "incr_sample si (sample smp) ''numcalls'' = Inr si1" "add_totaldp si1 smp = Inr si2"
       "map_of si2 (sample smp) = Some d2"
       "map_of d2 = (map_of d)(''numcalls'' \<mapsto> add_one n, ''totaldp'' \<mapsto> t')"
    by blast
  have run: "apply_call fm flds call_filters si smp = Inr (make_call smp flds ?vs, si2, call_filters)"
    using gt fc r(1,2) copy_fields_ok [OF attrs] by (simp add: apply_call_def)
  have "\<forall>k \<in> set flds. map_of (data (make_call smp flds ?vs)) k =
              (if k = ''FILTER'' then Some (VStr ''PASS'') else map_of (data smp) k)"
    using attrs by (auto simp: make_call_def map_of_zip_map)
  then show ?thesis using run r(3,4) by (auto simp: make_call_def)
qed

text \<open>
  C6: a call with a present genotype that no call filter fails should carry the status
  \<open>PASS\<close>. \<open>ApplyCallFilters\<close> decides whether to add the field \<open>FILTER\<close> by looking for
  the text \<open>FILTER\<close> in the FORMAT string, not among its keys. On the FORMAT
  \<open>GT:DP:XFILTER\<close> the field is not added, and the completed call \<open>call_x1\<close> is returned
  as it came, with no \<open>FILTER\<close> attribute; its counters are updated all the same.
\<close>

theorem pass_status_missing_when_format_mentions_FILTER:
  "ApplyCallFilters fm_ex rec_x [''GT'', ''DP'', ''XFILTER'', ''FILTER''] []
     (init_sample_info fm_ex [''s1'', ''s2'']) =
   Inr (rec_x\<lparr>samples := [call_x1, call_x2]\<rparr>,
        dict_set (init_sample_info fm_ex [''s1'', ''s2'']) ''s1''
          [(''numcalls'', NInt 1), (''totaldp'', NInt 5), (''LowCallDepth'', NInt 0),
           (''HighCallDepth'', NInt 0), (''LowCallQuality'', NInt 0),
           (''HighFlankIndelRate'', NInt 0), (''HighStutterRate'', NInt 0)]) \<and>
   map_of (data call_x1) ''FILTER'' = None"
  by code_simp

text \<open>
  On the same FORMAT the missing call \<open>call_x2\<close> is returned with its three input
  attributes and no \<open>FILTER\<close> attribute either.
\<close>

lemma nocall_status_missing_when_format_mentions_FILTER:
  "apply_call fm_ex (samp_fmt_fields ''GT:DP:XFILTER'') [LowCallDepth 10]
     (init_sample_info fm_ex [''s1'', ''s2'']) call_x2 =
   Inr (\<lparr>sample = ''s2'',
         data = [(''GT'', VStr ''./.''), (''DP'', VInt 7), (''XFILTER'', VNone)]\<rparr>,
        init_sample_info fm_ex [''s1'', ''s2''], [])"
  by code_simp

section \<open>Facts about the locus loop\<close>

lemma locus_filter_loop_drop:
  "locus_filter_loop fm True fl r li =
     Inr (list_all (\<lambda>f. locus_filter_call fm f r = VNone) fl, r, li,
          take (Suc (length (takeWhile (\<lambda>f. locus_filter_call fm f r = VNone) fl))) fl)"
  by (induction fl) simp_all

lemma incr_loc_ok: "map_of li k = Some v \<Longrightarrow> incr_loc li k n = Inr (dict_set li k (v + n))"
  by (simp add: incr_loc_def dict_get_def)

lemma add_filter_ok:
  "FILTER r \<noteq> FPass \<Longrightarrow>
   add_filter r name = Inr (r\<lparr>FILTER := FList (prev_names (FILTER r) @ [name])\<rparr>)"
  by (cases "FILTER r") (simp_all add: add_filter_def prev_names_def)

lemma locus_filter_loop_annotate:
  assumes "FILTER r \<noteq> FPass"
    and "list_all (\<lambda>f. map_of li (filter_name fm f) \<noteq> None) fl"
  shows "\<exists>li'. locus_filter_loop fm False fl r li =
           Inr (True,
                (if failed_filters fm fl r = [] then r
                 else r\<lparr>FILTER := FList (prev_names (FILTER r) @
                                           map (filter_name fm) (failed_filters fm fl r))\<rparr>),
                li', fl) \<and>
         (\<forall>k. map_of li' k =
            map_option (\<lambda>v. v + int (count_list (map (filter_name fm) (failed_filters fm fl r)) k))
              (map_of li k))"
  using assms
proof (induction fl arbitrary: r li)
  case Nil
  show ?case by (simp add: option.map_ident)
next
  case (Cons f fl)
  show ?case
  proof (cases "locus_filter_call fm f r = VNone")
    case True
    from Cons.prems have k: "list_all (\<lambda>f. map_of li (filter_name fm f) \<noteq> None) fl" by simp
    from Cons.IH [OF Cons.prems(1) k] True show ?thesis by auto
  next
    case False
    let ?n = "filter_name fm f"
    let ?r1 = "r\<lparr>FILTER := FList (prev_names (FILTER r) @ [?n])\<rparr>"
    from Cons.prems(2) obtain v where v: "map_of li ?n = Some v" by auto
    let ?li1 = "dict_set li ?n (v + 1)"
    have af: "add_filter r ?n = Inr ?r1" using Cons.prems(1) by (rule add_filter_ok)
    have il: "incr_loc li ?n 1 = Inr ?li1" using v by (rule incr_loc_ok)
    have p1: "FILTER ?r1 \<noteq> FPass" by simp
    have k1: "list_all (\<lambda>f. map_of ?li1 (filter_name fm f) \<noteq> None) fl"
      using Cons.prems(2) by (simp add: map_of_dict_set list_all_iff)
    from Cons.IH [OF p1 k1] obtain li' where
      ih: "locus_filter_loop fm False fl ?r1 ?li1 =
             Inr (True,
                  (if failed_filters fm fl ?r1 = [] then ?r1
                   else ?r1\<lparr>FILTER := FList (prev_names (FILTER ?r1) @
                                           map (filter_name fm) (failed_filters fm fl ?r1))\<rparr>),
                  li', fl)"
          "\<forall>k. map_of li' k =
             map_option (\<lambda>v. v + int (count_list (map (filter_name fm) (failed_filters fm fl ?r1)) k))
               (map_of ?li1 k)"
      by blast
    have ff: "failed_filters fm (f # fl) r = f # failed_filters fm fl ?r1"
      using False af by simp
    have run: "locus_filter_loop fm False (f # fl) r li =
             Inr (True,
                  (if failed_filters fm fl ?r1 = [] then ?r1
                   else ?r1\<lparr>FILTER := FList (prev_names (FILTER ?r1) @
                                           map (filter_name fm) (failed_filters fm fl ?r1))\<rparr>),
                  li', f # fl)"
      using False af il ih(1) by simp
    have rec: "(if failed_filters fm fl ?r1 = [] then ?r1
                   else ?r1\<lparr>FILTER := FList (prev_names (FILTER ?r1) @
                                           map (filter_name fm) (failed_filters fm fl ?r1))\<rparr>) =
               r\<lparr>FILTER := FList (prev_names (FILTER r) @
                                   map (filter_name fm) (failed_filters fm (f # fl) r))\<rparr>"
      unfolding ff by (simp add: prev_names_def del: failed_filters.simps)
    have cnt: "\<forall>k. map_of li' k =
            map_option (\<lambda>v. v + int (count_list (map (filter_name fm) (failed_filters fm (f # fl) r)) k))
              (map_of li k)"
      unfolding ff using ih(2) v by (auto simp: map_of_dict_set simp del: failed_filters.simps)
    show ?thesis unfolding rec [symmetric] using run cnt ff by (auto simp del: failed_filters.simps)
  qed
qed

lemma FILTER_set_info [simp]: "FILTER (set_info r k v) = FILTER r"
  by (simp add: set_info_def)

lemma FILTER_recalc_info: "FILTER (recalc_info sm ul r) = FILTER r"
  by (simp add: recalc_info_def Let_def set_HRUN_def set_HET_def set_HWEP_def set_AC_def
      set_REFAC_def)

lemma list_all_takeWhile:
  "list_all P xs \<Longrightarrow> takeWhile P xs = xs"
  by (induction xs) simp_all

lemma not_all_dropWhile:
  "\<not> list_all P xs \<Longrightarrow>
   take (Suc (length (takeWhile P xs))) xs = takeWhile P xs @ [hd (dropWhile P xs)] \<and>
   \<not> P (hd (dropWhile P xs)) \<and> hd (dropWhile P xs) \<in> set xs"
  by (induction xs) auto

lemma isr_ex: "(case x of Inl e \<Rightarrow> False | Inr y \<Rightarrow> True) \<Longrightarrow> \<exists>y. x = Inr y"
  by (cases x) simp_all

section \<open>Drop-filtered mode\<close>

text \<open>
  C1: in drop-filtered mode, when at least one locus filter fails on the call-filtered
  record, \<open>process_record\<close> leaves the output stream and \<open>loc_info\<close> as they were (the
  locus is not written, \<open>PASS\<close> is not incremented, no fail counter is incremented), and
  the locus filters called are the passing ones before the first failing filter and that
  filter: none after it.
\<close>

theorem drop_mode_first_failure_excludes_locus:
  assumes dropf: "drop_filtered a"
    and acf: "ApplyCallFilters fm rcd formats call_filters (sample_info_of st) = Inr (r1, si')"
    and fails: "\<exists>f\<in>set filter_list. \<not> passes fm (r1\<lparr>FILTER := FNone\<rparr>) f"
  shows "process_record fm sm a formats filter_list call_filters st rcd =
           Inr (\<lparr>sample_info_of = si', loc_info_of = loc_info_of st, outvcf = outvcf st\<rparr>,
                takeWhile (passes fm (r1\<lparr>FILTER := FNone\<rparr>)) filter_list @
                [hd (dropWhile (passes fm (r1\<lparr>FILTER := FNone\<rparr>)) filter_list)]) \<and>
         \<not> passes fm (r1\<lparr>FILTER := FNone\<rparr>)
             (hd (dropWhile (passes fm (r1\<lparr>FILTER := FNone\<rparr>)) filter_list)) \<and>
         hd (dropWhile (passes fm (r1\<lparr>FILTER := FNone\<rparr>)) filter_list) \<in> set filter_list"
proof -
  let ?r0 = "r1\<lparr>FILTER := FNone\<rparr>"
  let ?P = "passes fm ?r0"
  have na: "\<not> list_all ?P filter_list" using fails by (simp add: list_all_iff)
  have P: "(\<lambda>f. locus_filter_call fm f ?r0 = VNone) = ?P" by (simp add: passes_def fun_eq_iff)
  have loop: "locus_filter_loop fm True filter_list ?r0 (loc_info_of st) =
                Inr (False, ?r0, loc_info_of st,
                     take (Suc (length (takeWhile ?P filter_list))) filter_list)"
    using na by (simp add: locus_filter_loop_drop P)
  from not_all_dropWhile [OF na] loop acf dropf show ?thesis
    by (simp add: process_record_def)
qed

theorem drop_mode_first_failure_excludes_locus_witness:
  "process_record fm_ex sm_ex args_drop [''GT'', ''DP'', ''FILTER'']
     [Filter_MinLocusCallrate (4 / 5), Filter_LocusHrun, Filter_Regions ''0'' ''segdup.bed''] []
     \<lparr>sample_info_of = init_sample_info fm_ex [''s1'', ''s2''],
      loc_info_of = init_loc_info fm_ex
        [Filter_MinLocusCallrate (4 / 5), Filter_LocusHrun, Filter_Regions ''0'' ''segdup.bed''],
      outvcf = []\<rparr> rec0 =
   Inr (\<lparr>sample_info_of = init_sample_info fm_ex [''s1'', ''s2''],
         loc_info_of = init_loc_info fm_ex
           [Filter_MinLocusCallrate (4 / 5), Filter_LocusHrun, Filter_Regions ''0'' ''segdup.bed''],
         outvcf = []\<rparr>,
        [Filter_MinLocusCallrate (4 / 5)])"
proof -
  let ?fl = "[Filter_MinLocusCallrate (4 / 5), Filter_LocusHrun, Filter_Regions ''0'' ''segdup.bed'']"
  let ?st = "\<lparr>sample_info_of = init_sample_info fm_ex [''s1'', ''s2''],
              loc_info_of = init_loc_info fm_ex ?fl, outvcf = []\<rparr>"
  let ?r1 = "rec0\<lparr>samples :=
               [\<lparr>sample = ''s1'', data = [(''GT'', VStr ''./.''), (''DP'', VInt 7),
                                           (''FILTER'', VStr ''NOCALL'')]\<rparr>,
                \<lparr>sample = ''s2'', data = [(''GT'', VNone), (''DP'', VNone),
                                           (''FILTER'', VStr ''NOCALL'')]\<rparr>]\<rparr>"
  have h1: "drop_filtered args_drop" by (simp add: args_drop_def)
  have h2: "ApplyCallFilters fm_ex rec0 [''GT'', ''DP'', ''FILTER''] [] (sample_info_of ?st) =
              Inr (?r1, init_sample_info fm_ex [''s1'', ''s2''])"
    by code_simp
  have h3: "\<exists>f\<in>set ?fl. \<not> passes fm_ex (?r1\<lparr>FILTER := FNone\<rparr>) f" by code_simp
  have tw: "takeWhile (passes fm_ex (?r1\<lparr>FILTER := FNone\<rparr>)) ?fl = []" by code_simp
  have dw: "hd (dropWhile (passes fm_ex (?r1\<lparr>FILTER := FNone\<rparr>)) ?fl) =
              Filter_MinLocusCallrate (4 / 5)" by code_simp
  from drop_mode_first_failure_excludes_locus [OF h1 h2 h3, of sm_ex]
  show ?thesis unfolding tw dw by simp
qed

lemma process_record_drop_all_pass:
  assumes dropf: "drop_filtered a"
    and acf: "ApplyCallFilters fm rcd formats call_filters (sample_info_of st) = Inr (r1, si')"
    and ok: "list_all (passes fm (r1\<lparr>FILTER := FNone\<rparr>)) filter_list"
  shows "process_record fm sm a formats filter_list call_filters st rcd =
           Inr (\<lparr>sample_info_of = si', loc_info_of = loc_info_of st,
                 outvcf = outvcf st @ [recalc_info sm (use_length a) (r1\<lparr>FILTER := FNone\<rparr>)]\<rparr>,
                filter_list)"
proof -
  let ?r0 = "r1\<lparr>FILTER := FNone\<rparr>"
  have P: "(\<lambda>f. locus_filter_call fm f ?r0 = VNone) = passes fm ?r0"
    by (simp add: passes_def fun_eq_iff)
  have loop: "locus_filter_loop fm True filter_list ?r0 (loc_info_of st) =
                Inr (True, ?r0, loc_info_of st, filter_list)"
    using ok by (simp add: locus_filter_loop_drop P list_all_takeWhile)
  show ?thesis using loop acf dropf by (simp add: process_record_def Let_def)
qed

lemma process_record_drop_loc_info:
  assumes dropf: "drop_filtered a"
    and run: "process_record fm sm a formats filter_list call_filters st rcd = Inr (st', called)"
  shows "loc_info_of st' = loc_info_of st"
  using run dropf
  by (auto simp: process_record_def locus_filter_loop_drop Let_def FILTER_recalc_info
      split: sum.splits if_splits)

lemma process_records_drop_loc_info:
  "drop_filtered a \<Longrightarrow>
   process_records fm sm a formats filter_list call_filters rc st records = Inr st' \<Longrightarrow>
   loc_info_of st' = loc_info_of st"
proof (induction records arbitrary: rc st)
  case Nil
  then show ?case by simp
next
  case (Cons rcd rest)
  show ?case
  proof (cases "case num_records a of None \<Rightarrow> False | Some n \<Rightarrow> rc + 1 > n")
    case True
    with Cons.prems(2) show ?thesis by simp
  next
    case False
    with Cons.prems(2) obtain st1 called where
      s: "process_record fm sm a formats filter_list call_filters st rcd = Inr (st1, called)"
         "process_records fm sm a formats filter_list call_filters (rc + 1) st1 rest = Inr st'"
      by (auto split: sum.splits)
    from Cons.IH [OF Cons.prems(1) s(2)] process_record_drop_loc_info [OF Cons.prems(1) s(1)]
    show ?thesis by simp
  qed
qed

lemma map_of_foldl_zero:
  "map_of (foldl (\<lambda>li f. dict_set li (g f) (0::int)) li0 fl) k =
     (if k \<in> g ` set fl then Some 0 else map_of li0 k)"
  by (induction fl arbitrary: li0) (auto simp: map_of_dict_set)

lemma map_of_init_loc_info:
  "map_of (init_loc_info fm fl) k =
     (if k = ''totalcalls'' \<or> k = ''PASS'' \<or> k \<in> filter_name fm ` set fl then Some 0 else None)"
  by (simp add: init_loc_info_def map_of_foldl_zero)

lemma WriteLocLog_no_pass:
  assumes "map_of li ''PASS'' = Some 0" and "map_of li ''totalcalls'' = Some t"
  shows "\<exists>rest. WriteLocLog li = Inr ((''MeanSamplesPerPassingSTR'', NInt 0) # rest)"
proof -
  have "''totalcalls'' \<in> set (map fst li)"
    using assms(2) by (metis map_of_eq_None_iff option.distinct(1) set_map)
  then show ?thesis using assms(1) by (simp add: WriteLocLog_def dict_get_def Let_def)
qed

text \<open>
  C9: in drop-filtered mode a locus that passes every locus filter is written with its
  FILTER left at \<open>None\<close>; no run of the record loop changes \<open>loc_info\<close>; and when \<open>main\<close>
  completes, the counters \<open>PASS\<close> and \<open>totalcalls\<close> are 0 and the first line of the locus
  log reports \<open>MeanSamplesPerPassingSTR\<close> as 0.
\<close>

theorem drop_mode_never_counts_PASS:
  assumes dropf: "drop_filtered a"
  shows "(ApplyCallFilters fm rcd formats call_filters (sample_info_of st) = Inr (r1, si') \<and>
          list_all (passes fm (r1\<lparr>FILTER := FNone\<rparr>)) filter_list \<longrightarrow>
            process_record fm sm a formats filter_list call_filters st rcd =
              Inr (\<lparr>sample_info_of = si', loc_info_of = loc_info_of st,
                    outvcf = outvcf st @
                      [recalc_info sm (use_length a) (r1\<lparr>FILTER := FNone\<rparr>)]\<rparr>,
                   filter_list) \<and>
            FILTER (recalc_info sm (use_length a) (r1\<lparr>FILTER := FNone\<rparr>)) = FNone) \<and>
         (process_records fm sm a formats filter_list call_filters rc st records = Inr st' \<longrightarrow>
            loc_info_of st' = loc_info_of st) \<and>
         (main fm sm a formats smps records = Inr (st'', loclog) \<longrightarrow>
            map_of (loc_info_of st'') ''PASS'' = Some 0 \<and>
            map_of (loc_info_of st'') ''totalcalls'' = Some 0 \<and>
            hd (loc_log loclog) = (''MeanSamplesPerPassingSTR'', NInt 0))"
proof (intro conjI impI)
  assume h: "ApplyCallFilters fm rcd formats call_filters (sample_info_of st) = Inr (r1, si') \<and>
             list_all (passes fm (r1\<lparr>FILTER := FNone\<rparr>)) filter_list"
  then show "process_record fm sm a formats filter_list call_filters st rcd =
              Inr (\<lparr>sample_info_of = si', loc_info_of = loc_info_of st,
                    outvcf = outvcf st @
                      [recalc_info sm (use_length a) (r1\<lparr>FILTER := FNone\<rparr>)]\<rparr>,
                   filter_list)"
    using process_record_drop_all_pass [OF dropf] by blast
  show "FILTER (recalc_info sm (use_length a) (r1\<lparr>FILTER := FNone\<rparr>)) = FNone"
    by (simp add: FILTER_recalc_info)
next
  assume "process_records fm sm a formats filter_list call_filters rc st records = Inr st'"
  with dropf show "loc_info_of st' = loc_info_of st" by (rule process_records_drop_loc_info)
next
  assume m: "main fm sm a formats smps records = Inr (st'', loclog)"
  then obtain fl where fl: "BuildLocusFilters a = Inr fl"
    by (auto simp: main_def split: sum.splits)
  let ?st0 = "\<lparr>sample_info_of = init_sample_info fm smps, loc_info_of = init_loc_info fm fl,
               outvcf = []\<rparr>"
  let ?formats = "if ''FILTER'' \<in> set formats then formats else formats @ [''FILTER'']"
  from m fl have run: "process_records fm sm a ?formats fl (BuildCallFilters a) 0 ?st0 records =
                         Inr st''"
    and log: "WriteLocLog (loc_info_of st'') = Inr (loc_log loclog)"
    by (auto simp: main_def Let_def split: sum.splits)
  from process_records_drop_loc_info [OF dropf run]
  have li: "loc_info_of st'' = init_loc_info fm fl" by simp
  show p: "map_of (loc_info_of st'') ''PASS'' = Some 0" by (simp add: li map_of_init_loc_info)
  show t: "map_of (loc_info_of st'') ''totalcalls'' = Some 0"
    by (simp add: li map_of_init_loc_info)
  from WriteLocLog_no_pass [OF p t] log
  show "hd (loc_log loclog) = (''MeanSamplesPerPassingSTR'', NInt 0)" by auto
qed

theorem drop_mode_never_counts_PASS_witness:
  "(\<exists>st loclog. main fm_ex sm_ex args_drop [''GT'', ''DP''] [''s1'', ''s2''] [rec0, rec2, rec1] =
       Inr (st, loclog) \<and>
     map_of (loc_info_of st) ''PASS'' = Some 0 \<and>
     map_of (loc_info_of st) ''totalcalls'' = Some 0 \<and>
     hd (loc_log loclog) = (''MeanSamplesPerPassingSTR'', NInt 0)) \<and>
   (\<exists>st r. process_record fm_ex sm_ex args_drop [''GT'', ''DP'', ''FILTER'']
       [Filter_MinLocusCallrate (4 / 5), Filter_LocusHrun, Filter_Regions ''0'' ''segdup.bed''] []
       \<lparr>sample_info_of = init_sample_info fm_ex [''s1'', ''s2''],
        loc_info_of = init_loc_info fm_ex
          [Filter_MinLocusCallrate (4 / 5), Filter_LocusHrun, Filter_Regions ''0'' ''segdup.bed''],
        outvcf = []\<rparr> rec2 =
       Inr (st, [Filter_MinLocusCallrate (4 / 5), Filter_LocusHrun,
                 Filter_Regions ''0'' ''segdup.bed'']) \<and>
     outvcf st = [r] \<and> FILTER r = FNone \<and>
     loc_info_of st = init_loc_info fm_ex
          [Filter_MinLocusCallrate (4 / 5), Filter_LocusHrun, Filter_Regions ''0'' ''segdup.bed''])"
proof -
  let ?fl = "[Filter_MinLocusCallrate (4 / 5), Filter_LocusHrun, Filter_Regions ''0'' ''segdup.bed'']"
  let ?st = "\<lparr>sample_info_of = init_sample_info fm_ex [''s1'', ''s2''],
              loc_info_of = init_loc_info fm_ex ?fl, outvcf = []\<rparr>"
  let ?r1 = "rec2\<lparr>samples :=
               [\<lparr>sample = ''s1'', data = [(''GT'', VStr ''0/1''), (''DP'', VInt 5),
                                           (''FILTER'', VStr ''PASS'')]\<rparr>,
                \<lparr>sample = ''s2'', data = [(''GT'', VStr ''1''), (''DP'', VInt 20),
                                           (''FILTER'', VStr ''PASS'')]\<rparr>]\<rparr>"
  let ?si = "[(''s1'', [(''numcalls'', NInt 1), (''totaldp'', NInt 5), (''LowCallDepth'', NInt 0),
                       (''HighCallDepth'', NInt 0), (''LowCallQuality'', NInt 0),
                       (''HighFlankIndelRate'', NInt 0), (''HighStutterRate'', NInt 0)]),
              (''s2'', [(''numcalls'', NInt 1), (''totaldp'', NInt 20), (''LowCallDepth'', NInt 0),
                       (''HighCallDepth'', NInt 0), (''LowCallQuality'', NInt 0),
                       (''HighFlankIndelRate'', NInt 0), (''HighStutterRate'', NInt 0)])]"
  have h1: "drop_filtered args_drop" by (simp add: args_drop_def)
  have "case main fm_ex sm_ex args_drop [''GT'', ''DP''] [''s1'', ''s2''] [rec0, rec2, rec1] of
          Inl e \<Rightarrow> False | Inr y \<Rightarrow> True"
    by code_simp
  then obtain st loclog where
    m: "main fm_ex sm_ex args_drop [''GT'', ''DP''] [''s1'', ''s2''] [rec0, rec2, rec1] =
          Inr (st, loclog)"
    by (metis isr_ex surj_pair)
  have h2: "ApplyCallFilters fm_ex rec2 [''GT'', ''DP'', ''FILTER''] [] (sample_info_of ?st) =
              Inr (?r1, ?si)"
    by code_simp
  have h3: "list_all (passes fm_ex (?r1\<lparr>FILTER := FNone\<rparr>)) ?fl" by code_simp
  from drop_mode_never_counts_PASS [OF h1, where fm = fm_ex and sm = sm_ex
      and formats = "[''GT'', ''DP'']" and smps = "[''s1'', ''s2'']"
      and records = "[rec0, rec2, rec1]" and st'' = st and loclog = loclog] m
  have a: "map_of (loc_info_of st) ''PASS'' = Some 0 \<and>
     map_of (loc_info_of st) ''totalcalls'' = Some 0 \<and>
     hd (loc_log loclog) = (''MeanSamplesPerPassingSTR'', NInt 0)" by blast
  from drop_mode_never_counts_PASS [OF h1, where fm = fm_ex and sm = sm_ex
      and formats = "[''GT'', ''DP'', ''FILTER'']" and rcd = rec2 and call_filters = "[]"
      and st = ?st and ?r1.0 = ?r1 and si' = ?si and filter_list = ?fl] h2 h3
  have b: "process_record fm_ex sm_ex args_drop [''GT'', ''DP'', ''FILTER''] ?fl [] ?st rec2 =
              Inr (\<lparr>sample_info_of = ?si, loc_info_of = loc_info_of ?st,
                    outvcf = outvcf ?st @
                      [recalc_info sm_ex (use_length args_drop) (?r1\<lparr>FILTER := FNone\<rparr>)]\<rparr>,
                   ?fl) \<and>
            FILTER (recalc_info sm_ex (use_length args_drop) (?r1\<lparr>FILTER := FNone\<rparr>)) = FNone"
    by blast
  let ?r = "recalc_info sm_ex (use_length args_drop) (?r1\<lparr>FILTER := FNone\<rparr>)"
  let ?st' = "\<lparr>sample_info_of = ?si, loc_info_of = loc_info_of ?st, outvcf = outvcf ?st @ [?r]\<rparr>"
  from a m have A: "\<exists>st loclog.
       main fm_ex sm_ex args_drop [''GT'', ''DP''] [''s1'', ''s2''] [rec0, rec2, rec1] =
       Inr (st, loclog) \<and>
     map_of (loc_info_of st) ''PASS'' = Some 0 \<and>
     map_of (loc_info_of st) ''totalcalls'' = Some 0 \<and>
     hd (loc_log loclog) = (''MeanSamplesPerPassingSTR'', NInt 0)" by blast
  from b have B: "process_record fm_ex sm_ex args_drop [''GT'', ''DP'', ''FILTER''] ?fl [] ?st rec2 =
       Inr (?st', ?fl) \<and>
     outvcf ?st' = [?r] \<and> FILTER ?r = FNone \<and> loc_info_of ?st' = init_loc_info fm_ex ?fl"
    by simp
  from A B show ?thesis by blast
qed

section \<open>Loci with zero completed calls\<close>






section \<open>Allele counts\<close>

lemma py_int_toward_zero:
  "(0 \<le> x \<longrightarrow> of_int (py_int x) \<le> x \<and> x < of_int (py_int x) + 1) \<and>
   (x < 0 \<longrightarrow> x \<le> of_int (py_int x) \<and> of_int (py_int x) - 1 < x)"
  by (simp add: py_int_def) linarith

lemma process_record_emits_recalc:
  "process_record fm sm a formats filter_list call_filters st rcd = Inr (st', called) \<Longrightarrow>
   outvcf st' = outvcf st \<or>
   (\<exists>r2 r. outvcf st' = outvcf st @ [r] \<and> INFO r = INFO (recalc_info sm (use_length a) r2))"
  by (auto simp: process_record_def Let_def split: sum.splits if_splits) blast+



section \<open>Annotate mode and the fail counters\<close>

lemma set_failed_filters: "set (failed_filters fm fl r) \<subseteq> set fl"
  by (induction fl arbitrary: r) auto



lemma process_record_annotate:
  assumes nd: "\<not> drop_filtered a"
    and keys: "loc_keys_ok fm filter_list (loc_info_of st)"
    and acf: "ApplyCallFilters fm rcd formats call_filters (sample_info_of st) = Inr (r1, si')"
  shows "\<exists>st' r li'.
           process_record fm sm a formats filter_list call_filters st rcd = Inr (st', filter_list) \<and>
           sample_info_of st' = si' \<and> outvcf st' = outvcf st @ [r] \<and>
           (\<forall>k. map_of li' k =
              map_option (\<lambda>v. v + int (count_list (map (filter_name fm)
                (failed_filters fm filter_list (r1\<lparr>FILTER := FNone\<rparr>))) k))
              (map_of (loc_info_of st) k)) \<and>
           (failed_filters fm filter_list (r1\<lparr>FILTER := FNone\<rparr>) = [] \<longrightarrow>
              FILTER r = FPass \<and>
              (\<exists>p t. map_of li' ''PASS'' = Some p \<and> map_of li' ''totalcalls'' = Some t \<and>
                 map_of (loc_info_of st') =
                   (map_of li')(''PASS'' \<mapsto> p + 1, ''totalcalls'' \<mapsto> t + int (num_called sm r)))) \<and>
           (failed_filters fm filter_list (r1\<lparr>FILTER := FNone\<rparr>) \<noteq> [] \<longrightarrow>
              FILTER r = FList (map (filter_name fm)
                (failed_filters fm filter_list (r1\<lparr>FILTER := FNone\<rparr>))) \<and>
              loc_info_of st' = li')"
proof -
  let ?r0 = "r1\<lparr>FILTER := FNone\<rparr>"
  let ?failed = "failed_filters fm filter_list ?r0"
  let ?names = "map (filter_name fm) ?failed"
  have p: "FILTER ?r0 \<noteq> FPass" by simp
  have k: "list_all (\<lambda>f. map_of (loc_info_of st) (filter_name fm f) \<noteq> None) filter_list"
    using keys by (simp add: loc_keys_ok_def)
  let ?r2 = "if ?failed = [] then ?r0 else ?r0\<lparr>FILTER := FList (prev_names (FILTER ?r0) @ ?names)\<rparr>"
  from locus_filter_loop_annotate [OF p k] obtain li' where
    l: "locus_filter_loop fm False filter_list ?r0 (loc_info_of st) = Inr (True, ?r2, li', filter_list)"
       "\<forall>k. map_of li' k = map_option (\<lambda>v. v + int (count_list ?names k)) (map_of (loc_info_of st) k)"
    by blast
  let ?r3 = "recalc_info sm (use_length a) ?r2"
  show ?thesis
  proof (cases "?failed = []")
    case True
    then have f3: "FILTER ?r3 = FNone" by (simp add: FILTER_recalc_info)
    let ?r4 = "?r3\<lparr>FILTER := FPass\<rparr>"
    have "map_of li' ''PASS'' \<noteq> None" using keys l(2) by (simp add: loc_keys_ok_def)
    then obtain pv where pv: "map_of li' ''PASS'' = Some pv" by blast
    let ?li1 = "dict_set li' ''PASS'' (pv + 1)"
    have "map_of li' ''totalcalls'' \<noteq> None" using keys l(2) by (simp add: loc_keys_ok_def)
    then obtain tv where tv0: "map_of li' ''totalcalls'' = Some tv" by blast
    then have tv: "map_of ?li1 ''totalcalls'' = Some tv" by (simp add: map_of_dict_set)
    let ?li2 = "dict_set ?li1 ''totalcalls'' (tv + int (num_called sm ?r4))"
    let ?st' = "\<lparr>sample_info_of = si', loc_info_of = ?li2, outvcf = outvcf st @ [?r4]\<rparr>"
    have run: "process_record fm sm a formats filter_list call_filters st rcd =
                 Inr (?st', filter_list)"
      using acf l(1) nd f3 incr_loc_ok [OF pv] incr_loc_ok [OF tv]
      by (simp add: process_record_def Let_def)
    have m: "map_of (loc_info_of ?st') =
               (map_of li')(''PASS'' \<mapsto> pv + 1, ''totalcalls'' \<mapsto> tv + int (num_called sm ?r4))"
      by (simp add: map_of_dict_set)
    show ?thesis
      by (rule exI [of _ ?st'], rule exI [of _ ?r4], rule exI [of _ li'])
         (use run l(2) True pv tv0 m in simp)
  next
    case False
    then have f3: "FILTER ?r3 = FList ?names" by (simp add: FILTER_recalc_info prev_names_def)
    let ?st' = "\<lparr>sample_info_of = si', loc_info_of = li', outvcf = outvcf st @ [?r3]\<rparr>"
    have run: "process_record fm sm a formats filter_list call_filters st rcd =
                 Inr (?st', filter_list)"
      using acf l(1) nd f3 by (simp add: process_record_def Let_def)
    show ?thesis
      by (rule exI [of _ ?st'], rule exI [of _ ?r3], rule exI [of _ li'])
         (use run l(2) False f3 in simp)
  qed
qed

lemma processed_Nil [simp]: "processed a rc [] = []"
  by (simp add: processed_def split: option.splits)

lemma processed_Cons:
  "processed a rc (r # rest) =
     (if (case num_records a of None \<Rightarrow> False | Some n \<Rightarrow> rc + 1 > n) then []
      else r # processed a (rc + 1) rest)"
proof (cases "num_records a")
  case None
  then show ?thesis by (simp add: processed_def)
next
  case (Some n)
  show ?thesis
  proof (cases "rc + 1 > n")
    case True
    then show ?thesis using Some by (simp add: processed_def)
  next
    case False
    then have "nat (n - rc) = Suc (nat (n - (rc + 1)))" by simp
    then show ?thesis using Some False by (simp add: processed_def)
  qed
qed

lemma process_records_annotate:
  assumes nd: "\<not> drop_filtered a"
    and np: "''PASS'' \<notin> filter_name fm ` set filter_list"
  shows "loc_keys_ok fm filter_list (loc_info_of st) \<Longrightarrow>
         process_records fm sm a formats filter_list call_filters rc st records = Inr st' \<Longrightarrow>
         \<exists>new p. outvcf st' = outvcf st @ new \<and>
           length new = length (processed a rc records) \<and>
           map_of (loc_info_of st) ''PASS'' = Some p \<and>
           map_of (loc_info_of st') ''PASS'' =
             Some (p + int (length (filter (\<lambda>r. FILTER r = FPass) new)))"
proof (induction records arbitrary: rc st)
  case Nil
  then show ?case by (auto simp: loc_keys_ok_def)
next
  case (Cons rcd rest)
  from Cons.prems(1) obtain p where p: "map_of (loc_info_of st) ''PASS'' = Some p"
    by (auto simp: loc_keys_ok_def)
  show ?case
  proof (cases "case num_records a of None \<Rightarrow> False | Some n \<Rightarrow> rc + 1 > n")
    case True
    with Cons.prems(2) have "st' = st" by simp
    then show ?thesis using True p by (simp add: processed_Cons)
  next
    case False
    with Cons.prems(2) obtain st1 called where
      s: "process_record fm sm a formats filter_list call_filters st rcd = Inr (st1, called)"
         "process_records fm sm a formats filter_list call_filters (rc + 1) st1 rest = Inr st'"
      by (auto split: sum.splits)
    from s(1) obtain r1 si' where
      acf: "ApplyCallFilters fm rcd formats call_filters (sample_info_of st) = Inr (r1, si')"
      by (auto simp: process_record_def split: sum.splits)
    let ?failed = "failed_filters fm filter_list (r1\<lparr>FILTER := FNone\<rparr>)"
    let ?names = "map (filter_name fm) ?failed"
    from process_record_annotate [OF nd Cons.prems(1) acf, of sm]
    obtain st2 r li' where
      e0: "process_record fm sm a formats filter_list call_filters st rcd = Inr (st2, filter_list)"
      and e1: "outvcf st2 = outvcf st @ [r]"
      and e2: "\<forall>k. map_of li' k = map_option (\<lambda>v. v + int (count_list ?names k))
                 (map_of (loc_info_of st) k)"
      and e3: "?failed = [] \<longrightarrow> FILTER r = FPass \<and>
            (\<exists>p t. map_of li' ''PASS'' = Some p \<and> map_of li' ''totalcalls'' = Some t \<and>
               map_of (loc_info_of st2) =
                 (map_of li')(''PASS'' \<mapsto> p + 1, ''totalcalls'' \<mapsto> t + int (num_called sm r)))"
      and e4: "?failed \<noteq> [] \<longrightarrow> FILTER r = FList ?names \<and> loc_info_of st2 = li'"
      by blast
    from e0 s(1) have st2: "st2 = st1" by simp
    note e = e1 [unfolded st2] e2 e3 [unfolded st2] e4 [unfolded st2]
    have cnt0: "count_list ?names ''PASS'' = 0"
      using np set_failed_filters [of fm filter_list "r1\<lparr>FILTER := FNone\<rparr>"]
      by (auto simp: count_list_0_iff)
    have lp: "map_of li' ''PASS'' = Some p" using e(2) p cnt0 by simp
    have dom1: "\<forall>k. (map_of (loc_info_of st1) k = None) = (map_of (loc_info_of st) k = None)"
    proof (cases "?failed = []")
      case True
      with e(3) obtain p' t where
        "map_of li' ''PASS'' = Some p'" "map_of li' ''totalcalls'' = Some t"
        "map_of (loc_info_of st1) =
           (map_of li')(''PASS'' \<mapsto> p' + 1, ''totalcalls'' \<mapsto> t + int (num_called sm r))"
        by blast
      then show ?thesis using e(2) by auto
    next
      case False
      with e(4) e(2) show ?thesis by simp
    qed
    have keys1: "loc_keys_ok fm filter_list (loc_info_of st1)"
      using Cons.prems(1) dom1 by (simp add: loc_keys_ok_def)
    have p1: "map_of (loc_info_of st1) ''PASS'' = Some (p + (if FILTER r = FPass then 1 else 0))"
    proof (cases "?failed = []")
      case True
      with e(3) lp show ?thesis by auto
    next
      case False
      with e(4) lp show ?thesis by auto
    qed
    from Cons.IH [OF keys1 s(2)] obtain new q where
      ih: "outvcf st' = outvcf st1 @ new" "length new = length (processed a (rc + 1) rest)"
          "map_of (loc_info_of st1) ''PASS'' = Some q"
          "map_of (loc_info_of st') ''PASS'' =
             Some (q + int (length (filter (\<lambda>r. FILTER r = FPass) new)))"
      by blast
    have "outvcf st' = outvcf st @ (r # new)" using ih(1) e(1) by simp
    moreover have "length (r # new) = length (processed a rc (rcd # rest))"
      using ih(2) False by (simp add: processed_Cons)
    moreover have "map_of (loc_info_of st') ''PASS'' =
             Some (p + int (length (filter (\<lambda>r. FILTER r = FPass) (r # new))))"
      using ih(3,4) p1 by auto
    ultimately show ?thesis using p by blast
  qed
qed

lemma length_filter_compl:
  "length (filter P xs) + length (filter (\<lambda>x. \<not> P x) xs) = length xs"
  by (induction xs) simp_all

lemma loc_keys_ok_init: "loc_keys_ok fm fl (init_loc_info fm fl)"
  by (simp add: loc_keys_ok_def map_of_init_loc_info list_all_iff)





text \<open>
  C4, as amended: in annotate mode every registered locus filter is called on every
  processed locus; the record is written; the counter of each name grows by the number of
  failing filters that carry it and the names of the failing filters, in order, become
  the FILTER of the record; a locus with no failing filter gets FILTER \<open>PASS\<close>, \<open>PASS\<close>
  grows by one and \<open>totalcalls\<close> by its number of completed calls. When \<open>main\<close> completes
  and no registered filter is itself named \<open>PASS\<close>, every processed locus was written and
  \<open>PASS\<close> plus the number of written loci with a failing filter is the number of
  processed loci.
\<close>

theorem annotate_mode_accounting:
  assumes nd: "\<not> drop_filtered a"
  shows "(loc_keys_ok fm filter_list (loc_info_of st) \<and>
          ApplyCallFilters fm rcd formats call_filters (sample_info_of st) = Inr (r1, si') \<longrightarrow>
          (\<exists>st' r li'.
             process_record fm sm a formats filter_list call_filters st rcd =
               Inr (st', filter_list) \<and>
             outvcf st' = outvcf st @ [r] \<and>
             (\<forall>k. map_of li' k =
                map_option (\<lambda>v. v + int (count_list (map (filter_name fm)
                  (failed_filters fm filter_list (r1\<lparr>FILTER := FNone\<rparr>))) k))
                (map_of (loc_info_of st) k)) \<and>
             (failed_filters fm filter_list (r1\<lparr>FILTER := FNone\<rparr>) = [] \<longrightarrow>
                FILTER r = FPass \<and>
                (\<exists>p t. map_of li' ''PASS'' = Some p \<and> map_of li' ''totalcalls'' = Some t \<and>
                   map_of (loc_info_of st') =
                     (map_of li')(''PASS'' \<mapsto> p + 1,
                                  ''totalcalls'' \<mapsto> t + int (num_called sm r)))) \<and>
             (failed_filters fm filter_list (r1\<lparr>FILTER := FNone\<rparr>) \<noteq> [] \<longrightarrow>
                FILTER r = FList (map (filter_name fm)
                  (failed_filters fm filter_list (r1\<lparr>FILTER := FNone\<rparr>))) \<and>
                loc_info_of st' = li'))) \<and>
         (main fm sm a formats smps records = Inr (st'', loclog) \<and>
          BuildLocusFilters a = Inr fl \<and> ''PASS'' \<notin> filter_name fm ` set fl \<longrightarrow>
          (\<exists>q. map_of (loc_info_of st'') ''PASS'' = Some q \<and>
             length (outvcf st'') = length (processed a 0 records) \<and>
             q + int (length (filter (\<lambda>r. FILTER r \<noteq> FPass) (outvcf st''))) =
               int (length (processed a 0 records))))"
proof (intro conjI impI)
  assume "loc_keys_ok fm filter_list (loc_info_of st) \<and>
          ApplyCallFilters fm rcd formats call_filters (sample_info_of st) = Inr (r1, si')"
  then have keys: "loc_keys_ok fm filter_list (loc_info_of st)"
    and acf: "ApplyCallFilters fm rcd formats call_filters (sample_info_of st) = Inr (r1, si')"
    by simp_all
  from process_record_annotate [OF nd keys acf, of sm]
  show "\<exists>st' r li'.
             process_record fm sm a formats filter_list call_filters st rcd =
               Inr (st', filter_list) \<and>
             outvcf st' = outvcf st @ [r] \<and>
             (\<forall>k. map_of li' k =
                map_option (\<lambda>v. v + int (count_list (map (filter_name fm)
                  (failed_filters fm filter_list (r1\<lparr>FILTER := FNone\<rparr>))) k))
                (map_of (loc_info_of st) k)) \<and>
             (failed_filters fm filter_list (r1\<lparr>FILTER := FNone\<rparr>) = [] \<longrightarrow>
                FILTER r = FPass \<and>
                (\<exists>p t. map_of li' ''PASS'' = Some p \<and> map_of li' ''totalcalls'' = Some t \<and>
                   map_of (loc_info_of st') =
                     (map_of li')(''PASS'' \<mapsto> p + 1,
                                  ''totalcalls'' \<mapsto> t + int (num_called sm r)))) \<and>
             (failed_filters fm filter_list (r1\<lparr>FILTER := FNone\<rparr>) \<noteq> [] \<longrightarrow>
                FILTER r = FList (map (filter_name fm)
                  (failed_filters fm filter_list (r1\<lparr>FILTER := FNone\<rparr>))) \<and>
                loc_info_of st' = li')"
    by blast
next
  assume h: "main fm sm a formats smps records = Inr (st'', loclog) \<and>
          BuildLocusFilters a = Inr fl \<and> ''PASS'' \<notin> filter_name fm ` set fl"
  let ?st0 = "\<lparr>sample_info_of = init_sample_info fm smps, loc_info_of = init_loc_info fm fl,
               outvcf = []\<rparr>"
  let ?formats = "if ''FILTER'' \<in> set formats then formats else formats @ [''FILTER'']"
  from h have run: "process_records fm sm a ?formats fl (BuildCallFilters a) 0 ?st0 records =
                         Inr st''"
    by (auto simp: main_def Let_def split: sum.splits)
  from h have np: "''PASS'' \<notin> filter_name fm ` set fl" by simp
  have keys: "loc_keys_ok fm fl (loc_info_of ?st0)" by (simp add: loc_keys_ok_init)
  from process_records_annotate [OF nd np keys run] obtain new p where
    r: "outvcf st'' = outvcf ?st0 @ new" "length new = length (processed a 0 records)"
       "map_of (loc_info_of ?st0) ''PASS'' = Some p"
       "map_of (loc_info_of st'') ''PASS'' =
          Some (p + int (length (filter (\<lambda>r. FILTER r = FPass) new)))"
    by blast
  from r(3) have p0: "p = 0" by (simp add: map_of_init_loc_info)
  have out: "outvcf st'' = new" using r(1) by simp
  have "int (length (filter (\<lambda>r. FILTER r = FPass) new)) +
        int (length (filter (\<lambda>r. FILTER r \<noteq> FPass) new)) = int (length new)"
    using length_filter_compl [of "\<lambda>r. FILTER r = FPass" new] by linarith
  then show "\<exists>q. map_of (loc_info_of st'') ''PASS'' = Some q \<and>
             length (outvcf st'') = length (processed a 0 records) \<and>
             q + int (length (filter (\<lambda>r. FILTER r \<noteq> FPass) (outvcf st''))) =
               int (length (processed a 0 records))"
    using r(2,4) p0 out by simp
qed

lemma isr_ex2: "(case x of Inl e \<Rightarrow> False | Inr y \<Rightarrow> True) \<Longrightarrow> \<exists>y z. x = Inr (y, z)"
  by (cases x) auto

theorem annotate_mode_accounting_witness:
  "(\<exists>st loclog q.
      main fm_ex sm_ex args_annot [''GT'', ''DP''] [''s1'', ''s2''] [rec0, rec2, rec1] =
        Inr (st, loclog) \<and>
      map_of (loc_info_of st) ''PASS'' = Some q \<and> length (outvcf st) = 3 \<and>
      q + int (length (filter (\<lambda>r. FILTER r \<noteq> FPass) (outvcf st))) = 3) \<and>
   (\<exists>st' r.
      process_record fm_ex sm_ex args_annot [''GT'', ''DP'', ''FILTER'']
        [Filter_MinLocusCallrate (4 / 5), Filter_LocusHrun, Filter_Regions ''SEGDUP'' ''segdup.bed'']
        []
        \<lparr>sample_info_of = init_sample_info fm_ex [''s1'', ''s2''],
         loc_info_of = init_loc_info fm_ex
           [Filter_MinLocusCallrate (4 / 5), Filter_LocusHrun,
            Filter_Regions ''SEGDUP'' ''segdup.bed''],
         outvcf = []\<rparr> rec2 =
        Inr (st', [Filter_MinLocusCallrate (4 / 5), Filter_LocusHrun,
                   Filter_Regions ''SEGDUP'' ''segdup.bed'']) \<and>
      outvcf st' = [r] \<and> FILTER r = FPass \<and>
      map_of (loc_info_of st') ''PASS'' = Some 1)"
proof -
  let ?fl = "[Filter_MinLocusCallrate (4 / 5), Filter_LocusHrun,
              Filter_Regions ''SEGDUP'' ''segdup.bed'']"
  let ?st = "\<lparr>sample_info_of = init_sample_info fm_ex [''s1'', ''s2''],
              loc_info_of = init_loc_info fm_ex ?fl, outvcf = []\<rparr>"
  let ?r1 = "rec2\<lparr>samples :=
               [\<lparr>sample = ''s1'', data = [(''GT'', VStr ''0/1''), (''DP'', VInt 5),
                                           (''FILTER'', VStr ''PASS'')]\<rparr>,
                \<lparr>sample = ''s2'', data = [(''GT'', VStr ''1''), (''DP'', VInt 20),
                                           (''FILTER'', VStr ''PASS'')]\<rparr>]\<rparr>"
  let ?si = "[(''s1'', [(''numcalls'', NInt 1), (''totaldp'', NInt 5), (''LowCallDepth'', NInt 0),
                       (''HighCallDepth'', NInt 0), (''LowCallQuality'', NInt 0),
                       (''HighFlankIndelRate'', NInt 0), (''HighStutterRate'', NInt 0)]),
              (''s2'', [(''numcalls'', NInt 1), (''totaldp'', NInt 20), (''LowCallDepth'', NInt 0),
                       (''HighCallDepth'', NInt 0), (''LowCallQuality'', NInt 0),
                       (''HighFlankIndelRate'', NInt 0), (''HighStutterRate'', NInt 0)])]"
  have nd: "\<not> drop_filtered args_annot" by code_simp
  have "case main fm_ex sm_ex args_annot [''GT'', ''DP''] [''s1'', ''s2''] [rec0, rec2, rec1] of
          Inl e \<Rightarrow> False | Inr y \<Rightarrow> True"
    by code_simp
  then obtain st loclog where
    m: "main fm_ex sm_ex args_annot [''GT'', ''DP''] [''s1'', ''s2''] [rec0, rec2, rec1] =
          Inr (st, loclog)"
    using isr_ex2 by blast
  have bl: "BuildLocusFilters args_annot = Inr ?fl" by code_simp
  have np: "''PASS'' \<notin> filter_name fm_ex ` set ?fl" by code_simp
  have pr: "length (processed args_annot 0 [rec0, rec2, rec1]) = 3" by code_simp
  have keys: "loc_keys_ok fm_ex ?fl (loc_info_of ?st)" by code_simp
  have acf: "ApplyCallFilters fm_ex rec2 [''GT'', ''DP'', ''FILTER''] [] (sample_info_of ?st) =
              Inr (?r1, ?si)"
    by code_simp
  have nf: "failed_filters fm_ex ?fl (?r1\<lparr>FILTER := FNone\<rparr>) = []" by code_simp
  have p0: "map_of (loc_info_of ?st) ''PASS'' = Some 0" by code_simp
  note t = annotate_mode_accounting [OF nd, where fm = fm_ex and sm = sm_ex]
  from t [where formats = "[''GT'', ''DP'']" and smps = "[''s1'', ''s2'']"
      and records = "[rec0, rec2, rec1]" and st'' = st and loclog = loclog and fl = ?fl,
      THEN conjunct2, rule_format, OF conjI [OF m conjI [OF bl np]]]
  obtain q where
    a: "map_of (loc_info_of st) ''PASS'' = Some q \<and>
        length (outvcf st) = length (processed args_annot 0 [rec0, rec2, rec1]) \<and>
        q + int (length (filter (\<lambda>r. FILTER r \<noteq> FPass) (outvcf st))) =
          int (length (processed args_annot 0 [rec0, rec2, rec1]))"
    by (elim exE) (erule that)
  from a pr m have A: "\<exists>st loclog q.
      main fm_ex sm_ex args_annot [''GT'', ''DP''] [''s1'', ''s2''] [rec0, rec2, rec1] =
        Inr (st, loclog) \<and>
      map_of (loc_info_of st) ''PASS'' = Some q \<and> length (outvcf st) = 3 \<and>
      q + int (length (filter (\<lambda>r. FILTER r \<noteq> FPass) (outvcf st))) = 3"
    by (intro exI [of _ st] exI [of _ loclog] exI [of _ q]) simp
  from t [where formats = "[''GT'', ''DP'', ''FILTER'']" and rcd = rec2 and call_filters = "[]"
      and st = ?st and ?r1.0 = ?r1 and si' = ?si and filter_list = ?fl,
      THEN conjunct1, rule_format, OF conjI [OF keys acf]]
  obtain st' r li' where
    b: "process_record fm_ex sm_ex args_annot [''GT'', ''DP'', ''FILTER''] ?fl [] ?st rec2 =
               Inr (st', ?fl) \<and>
        outvcf st' = outvcf ?st @ [r] \<and>
        (\<forall>k. map_of li' k =
                map_option (\<lambda>v. v + int (count_list (map (filter_name fm_ex)
                  (failed_filters fm_ex ?fl (?r1\<lparr>FILTER := FNone\<rparr>))) k))
                (map_of (loc_info_of ?st) k)) \<and>
        (failed_filters fm_ex ?fl (?r1\<lparr>FILTER := FNone\<rparr>) = [] \<longrightarrow>
                FILTER r = FPass \<and>
                (\<exists>p t. map_of li' ''PASS'' = Some p \<and> map_of li' ''totalcalls'' = Some t \<and>
                   map_of (loc_info_of st') =
                     (map_of li')(''PASS'' \<mapsto> p + 1,
                                  ''totalcalls'' \<mapsto> t + int (num_called sm_ex r)))) \<and>
        (failed_filters fm_ex ?fl (?r1\<lparr>FILTER := FNone\<rparr>) \<noteq> [] \<longrightarrow>
                FILTER r = FList (map (filter_name fm_ex)
                  (failed_filters fm_ex ?fl (?r1\<lparr>FILTER := FNone\<rparr>))) \<and>
                loc_info_of st' = li')"
    by (elim exE) (erule that)
  note b1 = b [THEN conjunct1] and b2 = b [THEN conjunct2, THEN conjunct1]
    and b3 = b [THEN conjunct2, THEN conjunct2, THEN conjunct1]
    and b4 = b [THEN conjunct2, THEN conjunct2, THEN conjunct2, THEN conjunct1]
  from b3 [rule_format, of "''PASS''"] have lp: "map_of li' ''PASS'' = Some 0"
    unfolding nf p0 by simp
  from b4 nf have fp: "FILTER r = FPass"
    and ex: "\<exists>p t. map_of li' ''PASS'' = Some p \<and> map_of li' ''totalcalls'' = Some t \<and>
                   map_of (loc_info_of st') =
                     (map_of li')(''PASS'' \<mapsto> p + 1,
                                  ''totalcalls'' \<mapsto> t + int (num_called sm_ex r))"
    by simp_all
  from ex lp have p1: "map_of (loc_info_of st') ''PASS'' = Some 1" by auto
  from b1 b2 fp p1 have B: "\<exists>st' r.
      process_record fm_ex sm_ex args_annot [''GT'', ''DP'', ''FILTER''] ?fl [] ?st rec2 =
        Inr (st', ?fl) \<and>
      outvcf st' = [r] \<and> FILTER r = FPass \<and> map_of (loc_info_of st') ''PASS'' = Some 1"
    by (intro exI [of _ st'] exI [of _ r]) simp
  from A B show ?thesis by (rule conjI)
qed

text \<open>
  The last part of the claim as stated fails when a region filter is named \<open>PASS\<close>: its
  fail counter and the counter of passing loci are then the same entry of \<open>loc_info\<close>. In
  a run over the single locus \<open>rec1\<close>, which fails that filter, \<open>PASS\<close> is 1 and the number
  of loci with a failing filter is 1, while one locus was processed.
\<close>

theorem filter_named_PASS_breaks_accounting:
  "\<not> drop_filtered args_pass \<and>
   BuildLocusFilters args_pass = Inr [Filter_LocusHrun, Filter_Regions ''PASS'' ''segdup.bed''] \<and>
   map FILTER (written (main fm_ex sm_ex args_pass [''GT'', ''DP''] [''s1'', ''s2''] [rec1])) =
     [FList [''PASS'']] \<and>
   counter_after (main fm_ex sm_ex args_pass [''GT'', ''DP''] [''s1'', ''s2''] [rec1]) ''PASS'' =
     Some 1 \<and>
   failing_loci (main fm_ex sm_ex args_pass [''GT'', ''DP''] [''s1'', ''s2''] [rec1]) = 1 \<and>
   length (processed args_pass 0 [rec1]) = 1"
  by code_simp

end
